theory Spec2Isabelle
  imports Complex_Main
begin

section \<open>The thermal-load calculator of \<^verbatim>\<open>Inifltration.py\<close>\<close>

text \<open>
  The script is one function, \<^verbatim>\<open>calculate_thermal_load\<close>: it binds a handful of
  literals, reads one humidity cell through pandas, calls two functions of the
  \<^verbatim>\<open>psychro\<close> module and evaluates closed formulas, printing five lines on the way.

  Numbers. The humidity cell comes back from pandas as a numpy double, and everything
  computed from it is one too. Such a value is a real number, a negative zero, an infinity
  or nan (type \<open>float64\<close> below); rounding and overflow are not represented, so arithmetic
  on two real values is exact. No numpy operation raises: dividing by a zero gives an
  infinity or nan (with a warning) and the run goes on.

  The function is written down twice. The functions named \<open>np_...\<close> follow the source
  line by line on \<open>float64\<close> values, special values included. The functions without the
  prefix describe the same lines on real numbers, which is where the formulas of the
  specification live; they stop with \<open>Special\<close> as soon as a value is not a real number
  (a missing cell, a zero divisor, a special value from \<^verbatim>\<open>psychro\<close>), and with
  \<open>Raised x\<close> when the exception \<open>x\<close> is raised. The lemma \<open>thermal_load_np\<close> shows that
  a run of the second description is a run of the first.

  The outside world. The spreadsheet reader and the two psychrometric functions are not
  part of the script; they are fields of an environment, each returning an exception or a
  value, so that every exception they can raise is a branch of the run.

  Output. Each \<^verbatim>\<open>print\<close> appends one line (its format string and the values
  formatted into it) to the output of the run; an exception ends the run and keeps the
  lines printed before it.
\<close>

subsection \<open>Doubles with their special values\<close>

datatype float64 = Fin real | NZero | PInf | NInf | NaN

text \<open>\<open>Fin 0\<close> is the positive zero, \<open>NZero\<close> the negative one.\<close>

fun is_finite :: "float64 \<Rightarrow> bool" where
  "is_finite (Fin x) = True"
| "is_finite NZero = True"
| "is_finite PInf = False"
| "is_finite NInf = False"
| "is_finite NaN = False"

fun is_zero :: "float64 \<Rightarrow> bool" where
  "is_zero (Fin x) = (x = 0)"
| "is_zero NZero = True"
| "is_zero PInf = False"
| "is_zero NInf = False"
| "is_zero NaN = False"

fun is_inf :: "float64 \<Rightarrow> bool" where
  "is_inf (Fin x) = False"
| "is_inf NZero = False"
| "is_inf PInf = True"
| "is_inf NInf = True"
| "is_inf NaN = False"

fun sign_bit :: "float64 \<Rightarrow> bool" where
  "sign_bit (Fin x) = (x < 0)"
| "sign_bit NZero = True"
| "sign_bit PInf = False"
| "sign_bit NInf = True"
| "sign_bit NaN = False"

text \<open>The real number a finite double stands for.\<close>

fun val :: "float64 \<Rightarrow> real" where
  "val (Fin x) = x"
| "val NZero = 0"
| "val PInf = 0"
| "val NInf = 0"
| "val NaN = 0"

definition zero_of :: "bool \<Rightarrow> float64" where
  "zero_of neg = (if neg then NZero else Fin 0)"

definition inf_of :: "bool \<Rightarrow> float64" where
  "inf_of neg = (if neg then NInf else PInf)"

text \<open>A finite result \<open>r\<close>; when it is zero, its sign is the one given.\<close>

definition fin_of :: "bool \<Rightarrow> real \<Rightarrow> float64" where
  "fin_of neg r = (if r = 0 then zero_of neg else Fin r)"

fun np_neg :: "float64 \<Rightarrow> float64" where
  "np_neg (Fin x) = (if x = 0 then NZero else Fin (- x))"
| "np_neg NZero = Fin 0"
| "np_neg PInf = NInf"
| "np_neg NInf = PInf"
| "np_neg NaN = NaN"

definition np_add :: "float64 \<Rightarrow> float64 \<Rightarrow> float64" where
  "np_add a b =
     (if a = NaN \<or> b = NaN then NaN
      else if (a = PInf \<and> b = NInf) \<or> (a = NInf \<and> b = PInf) then NaN
      else if is_inf a then a
      else if is_inf b then b
      else if a = NZero \<and> b = NZero then NZero
      else Fin (val a + val b))"

definition np_sub :: "float64 \<Rightarrow> float64 \<Rightarrow> float64" where
  "np_sub a b = np_add a (np_neg b)"

definition np_mul :: "float64 \<Rightarrow> float64 \<Rightarrow> float64" where
  "np_mul a b =
     (if a = NaN \<or> b = NaN then NaN
      else if (is_inf a \<and> is_zero b) \<or> (is_zero a \<and> is_inf b) then NaN
      else if is_inf a \<or> is_inf b then inf_of (sign_bit a \<noteq> sign_bit b)
      else fin_of (sign_bit a \<noteq> sign_bit b) (val a * val b))"

text \<open>Division raises nothing: a zero divisor gives an infinity, or nan for \<open>0 / 0\<close>.\<close>

definition np_div :: "float64 \<Rightarrow> float64 \<Rightarrow> float64" where
  "np_div a b =
     (if a = NaN \<or> b = NaN then NaN
      else if (is_inf a \<and> is_inf b) \<or> (is_zero a \<and> is_zero b) then NaN
      else if is_inf a \<or> is_zero b then inf_of (sign_bit a \<noteq> sign_bit b)
      else if is_inf b then zero_of (sign_bit a \<noteq> sign_bit b)
      else fin_of (sign_bit a \<noteq> sign_bit b) (val a / val b))"

text \<open>\<^verbatim>\<open>a > b\<close>: false whenever nan is involved; the two zeros are equal.\<close>

definition np_gt :: "float64 \<Rightarrow> float64 \<Rightarrow> bool" where
  "np_gt a b =
     (a \<noteq> NaN \<and> b \<noteq> NaN
      \<and> ((a = PInf \<and> b \<noteq> PInf) \<or> (b = NInf \<and> a \<noteq> NInf)
          \<or> (is_finite a \<and> is_finite b \<and> val a > val b)))"

subsection \<open>Exceptions, cells, data frames, the environment\<close>

datatype error =
    FileNotFoundError
  | KeyError
  | TypeError
  | PsychroError

text \<open>
  The failure class the specification calls DataUnavailable: the exceptions that reading
  the humidity cell can end in (no file, no such row or column, a cell that is no number).
\<close>

definition DataUnavailable :: "error \<Rightarrow> bool" where
  "DataUnavailable x = (x = FileNotFoundError \<or> x = KeyError \<or> x = TypeError)"

text \<open>
  How the description on real numbers stops: an exception was raised, or the run goes on
  with a value that is no real number.
\<close>

datatype stop = Raised error | Special

text \<open>
  A cell as pandas hands it back: a number; \<open>Missing\<close> for a blank cell or one of the
  markers pandas reads as missing (\<^verbatim>\<open>n/a\<close>, \<^verbatim>\<open>NA\<close>, ...), which arrives as nan; any
  other text.
\<close>

datatype cell = Number real | Missing | Text string

text \<open>A data frame: its columns in order, each a label and the cells of rows 0, 1, ...\<close>

type_synonym dataframe = "(string \<times> cell list) list"

text \<open>
  The psychrometric functions compute on the humidity, a numpy double, and so take and
  return doubles.
\<close>

record env =
  read_excel :: "string \<Rightarrow> error + dataframe"
  psy_w :: "real \<Rightarrow> float64 \<Rightarrow> real \<Rightarrow> error + float64"
  psy_v :: "real \<Rightarrow> float64 \<Rightarrow> error + float64"

datatype 'a line = Line string "'a list"

text \<open>\<^verbatim>\<open>df.at[i, col]\<close>: the cell of row label \<open>i\<close> in column \<open>col\<close>; KeyError when either is absent.\<close>

definition df_at :: "dataframe \<Rightarrow> nat \<Rightarrow> string \<Rightarrow> error + cell" where
  "df_at df i col =
     (case map_of df col of
        None \<Rightarrow> Inl KeyError
      | Some cells \<Rightarrow> if i < length cells then Inr (cells ! i) else Inl KeyError)"

text \<open>
  \<^verbatim>\<open>x / d\<close> for a cell \<open>x\<close> and a literal \<open>d\<close>: a number is divided, nan stays nan and
  raises nothing, text raises TypeError.
\<close>

fun np_cell_div :: "cell \<Rightarrow> real \<Rightarrow> error + float64" where
  "np_cell_div (Number x) d = Inr (np_div (Fin x) (Fin d))"
| "np_cell_div Missing d = Inr NaN"
| "np_cell_div (Text t) d = Inl TypeError"

text \<open>The real number in a result, if it is one.\<close>

fun real_result :: "error + float64 \<Rightarrow> stop + real" where
  "real_result (Inl x) = Inl (Raised x)"
| "real_result (Inr (Fin v)) = Inr v"
| "real_result (Inr NZero) = Inl Special"
| "real_result (Inr PInf) = Inl Special"
| "real_result (Inr NInf) = Inl Special"
| "real_result (Inr NaN) = Inl Special"

text \<open>Division of real numbers; a zero divisor has no real quotient.\<close>

definition real_div :: "real \<Rightarrow> real \<Rightarrow> stop + real" where
  "real_div a b = (if b = 0 then Inl Special else Inr (a / b))"

subsection \<open>The literals of the function body\<close>

text \<open>
  The names the source binds to literals (lines 31 to 39, 47 to 58 and 68). They are
  gathered in a record so that a property which varies one of them can be stated;
  \<open>constants\<close> holds the values the source writes.
\<close>

record config =
  c :: real
  lat :: real
  \<theta>i :: real
  V :: real
  Uw :: real
  Sw :: real
  \<theta>o :: real
  p :: real
  Vp :: real
  \<psi> :: real
  h :: real
  l :: real
  ACH :: real
  mvp :: real

definition constants :: config where
  "constants =
     \<lparr> c = 1000, lat = 2496000, \<theta>i = 23, V = 3 * 3 * 8,
       Uw = 0.7, Sw = 3 * 8, \<theta>o = - 7.3, p = 1, Vp = 36,
       \<psi> = 0.091, h = 8, l = 3, ACH = 0.5, mvp = 0.071 / 3600 \<rparr>"

text \<open>Line 34: \<^verbatim>\<open>\<theta>s = \<theta>i + 15\<close>.\<close>

definition \<theta>s :: "config \<Rightarrow> real" where
  "\<theta>s cfg = \<theta>i cfg + 15"

subsection \<open>The variables of the run\<close>

text \<open>
  The variables bound by line 73, and \<open>ws\<close>, bound at line 77, with values of type \<open>'a\<close>:
  doubles in the \<open>np_...\<close> functions, real numbers in the others. The field \<open>m\<close> is the
  source's one variable \<^verbatim>\<open>m\<close>: it is assigned at line 71 and assigned again at lines 76
  and 83, which the stages below do by record update.
\<close>

record 'a loads =
  \<phi> :: 'a
  wo :: 'a
  Vd :: 'a
  L :: 'a
  Qi :: 'a
  Vinf :: 'a
  minf :: 'a
  mp :: 'a
  Qs :: 'a
  Qla :: 'a
  m :: 'a
  Qlat :: 'a

record 'a outlet = "'a loads" +
  ws :: 'a

subsection \<open>Lines 42 to 44: the humidity reading\<close>

definition np_load_\<phi> :: "env \<Rightarrow> error + float64" where
  "np_load_\<phi> e =
     (case read_excel e ''humidity.csv'' of
        Inl x \<Rightarrow> Inl x
      | Inr humidity_data \<Rightarrow>
          (case df_at humidity_data 4 ''I'' of
             Inl x \<Rightarrow> Inl x
           | Inr y \<Rightarrow> np_cell_div y 100))"

definition load_\<phi> :: "env \<Rightarrow> stop + real" where
  "load_\<phi> e = real_result (np_load_\<phi> e)"

subsection \<open>Lines 46 to 73 on doubles\<close>

text \<open>
  The literals written without a decimal point are Python integers, and a product or sum
  of integers is exact before it becomes a double; every other operation is one on
  doubles, in the order the source evaluates it.
\<close>

text \<open>Line 59: \<^verbatim>\<open>Vinf = ACH * V / 3600\<close>.\<close>

definition np_Vinf :: "config \<Rightarrow> float64" where
  "np_Vinf cfg = np_div (np_mul (Fin (ACH cfg)) (Fin (V cfg))) (Fin 3600)"

text \<open>Line 49: \<^verbatim>\<open>Vd = (p * Vp / 3600)\<close>.\<close>

definition np_Vd :: "config \<Rightarrow> float64" where
  "np_Vd cfg = np_div (Fin (p cfg * Vp cfg)) (Fin 3600)"

text \<open>Line 69: \<^verbatim>\<open>Qla = p * mvp * l\<close>.\<close>

definition np_Qla :: "config \<Rightarrow> float64" where
  "np_Qla cfg = np_mul (np_mul (Fin (p cfg)) (Fin (mvp cfg))) (Fin (l cfg))"

text \<open>Line 64, for a given infiltration mass flow.\<close>

definition np_Qs :: "config \<Rightarrow> float64 \<Rightarrow> float64" where
  "np_Qs cfg x =
     (let d = np_sub (Fin (\<theta>o cfg)) (Fin (\<theta>i cfg)) in
      np_add
        (np_add
           (np_add (np_mul (np_mul (Fin (Uw cfg)) (Fin (Sw cfg))) d)
                   (np_mul (np_mul x (Fin (c cfg))) d))
           (np_mul (np_mul (Fin (\<psi> cfg)) (Fin (2 * h cfg + 2 * l cfg))) d))
        (Fin (70 * p cfg)))"

definition np_loads_stage ::
  "config \<Rightarrow> env \<Rightarrow> float64 \<Rightarrow> float64 line list \<times> (error + float64 loads)" where
  "np_loads_stage cfg e f =
     (case psy_w e (\<theta>o cfg) f 0 of
        Inl x \<Rightarrow> ([], Inl x)
      | Inr w \<Rightarrow>
          (case psy_v e (\<theta>o cfg) w of
             Inl x \<Rightarrow> ([], Inl x)
           | Inr v1 \<Rightarrow>
               (let mi = np_div (np_Vinf cfg) v1;
                    out1 = [Line ''Vinf = {Vinf:.2f} kg/s'' [np_Vinf cfg]] in
                case psy_v e (\<theta>o cfg) w of
                  Inl x \<Rightarrow> (out1, Inl x)
                | Inr v2 \<Rightarrow>
                    (let mq = np_div (np_Vd cfg) v2;
                         out2 = out1 @ [Line ''Qs = {Qs:.2f} W'' [np_Qs cfg mi]] in
                     case psy_v e (\<theta>o cfg) w of
                       Inl x \<Rightarrow> (out2, Inl x)
                     | Inr v3 \<Rightarrow>
                         (let mm = np_div (np_Vd cfg) v3;
                              ql = np_add (np_mul (np_mul mm (Fin (lat cfg))) (np_sub w f))
                                          (np_Qla cfg) in
                          (out2 @ [Line ''Qlat = {Qlat:.2f} W'' [ql]],
                           Inr \<lparr> \<phi> = f, wo = w, Vd = np_Vd cfg,
                                 L = Fin (2 * h cfg + 2 * l cfg), Qi = Fin (70 * p cfg),
                                 Vinf = np_Vinf cfg, minf = mi, mp = mq,
                                 Qs = np_Qs cfg mi, Qla = np_Qla cfg,
                                 m = mm, Qlat = ql \<rparr>))))))"

subsection \<open>Lines 76 to 84 on doubles\<close>

text \<open>
  Lines 76 and 77; neither division can raise, whatever the divisor.
\<close>

definition np_supply_stage ::
  "config \<Rightarrow> float64 loads \<Rightarrow> float64 line list \<times> float64 outlet" where
  "np_supply_stage cfg s =
     (let m1 = np_div (np_neg (Qs s)) (Fin (c cfg * (\<theta>s cfg - \<theta>i cfg)));
          w1 = np_sub (\<phi> s) (np_div (Qlat s) (np_mul m1 (Fin (lat cfg))))
      in ([Line ''m = {m:.3f} kg/s, ws = {ws:.3f} kg/kg'' [m1, w1]],
          loads.extend (s\<lparr>m := m1\<rparr>) (outlet.fields w1)))"

definition np_clamp_stage :: "float64 outlet \<Rightarrow> float64 line list \<times> float64 outlet" where
  "np_clamp_stage s =
     (let s' = (if np_gt (m s) (mp s) then s\<lparr>m := mp s\<rparr> else s)
      in ([Line ''m = {m:.3f} ks/s'' [m s']], s'))"

definition np_thermal_load ::
  "config \<Rightarrow> env \<Rightarrow> float64 line list \<times> (error + float64 outlet)" where
  "np_thermal_load cfg e =
     (case np_load_\<phi> e of
        Inl x \<Rightarrow> ([], Inl x)
      | Inr f \<Rightarrow>
          (case np_loads_stage cfg e f of
             (out1, Inl x) \<Rightarrow> (out1, Inl x)
           | (out1, Inr s1) \<Rightarrow>
               (case np_supply_stage cfg s1 of
                  (out2, s2) \<Rightarrow>
                    (case np_clamp_stage s2 of
                       (out3, s3) \<Rightarrow> (out1 @ out2 @ out3, Inr s3)))))"

definition np_calculate_thermal_load ::
  "env \<Rightarrow> float64 line list \<times> (error + float64 outlet)" where
  "np_calculate_thermal_load e = np_thermal_load constants e"

subsection \<open>Lines 46 to 73 on real numbers\<close>

text \<open>Lines 59 and 60.\<close>

definition Vinf_of :: "config \<Rightarrow> real" where
  "Vinf_of cfg = ACH cfg * V cfg / 3600"

text \<open>Line 64, for a given infiltration mass flow.\<close>

definition Qs_of :: "config \<Rightarrow> real \<Rightarrow> real" where
  "Qs_of cfg x =
     Uw cfg * Sw cfg * (\<theta>o cfg - \<theta>i cfg) + x * c cfg * (\<theta>o cfg - \<theta>i cfg)
       + \<psi> cfg * (2 * h cfg + 2 * l cfg) * (\<theta>o cfg - \<theta>i cfg) + 70 * p cfg"

text \<open>\<^verbatim>\<open>a / psy.v(\<theta>o, wo)\<close>, which lines 60, 63 and 71 each evaluate.\<close>

definition per_volume :: "config \<Rightarrow> env \<Rightarrow> real \<Rightarrow> real \<Rightarrow> stop + real" where
  "per_volume cfg e w a =
     (case real_result (psy_v e (\<theta>o cfg) (Fin w)) of Inl x \<Rightarrow> Inl x | Inr v \<Rightarrow> real_div a v)"

definition loads_stage ::
  "config \<Rightarrow> env \<Rightarrow> real \<Rightarrow> real line list \<times> (stop + real loads)" where
  "loads_stage cfg e f =
     (case real_result (psy_w e (\<theta>o cfg) (Fin f) 0) of
        Inl x \<Rightarrow> ([], Inl x)
      | Inr w \<Rightarrow>
          (case per_volume cfg e w (Vinf_of cfg) of
             Inl x \<Rightarrow> ([], Inl x)
           | Inr mi \<Rightarrow>
               (let out1 = [Line ''Vinf = {Vinf:.2f} kg/s'' [Vinf_of cfg]] in
                case per_volume cfg e w (p cfg * Vp cfg / 3600) of
                  Inl x \<Rightarrow> (out1, Inl x)
                | Inr mq \<Rightarrow>
                    (let out2 = out1 @ [Line ''Qs = {Qs:.2f} W'' [Qs_of cfg mi]] in
                     case per_volume cfg e w (p cfg * Vp cfg / 3600) of
                       Inl x \<Rightarrow> (out2, Inl x)
                     | Inr mm \<Rightarrow>
                         (let ql = mm * lat cfg * (w - f) + p cfg * mvp cfg * l cfg in
                          (out2 @ [Line ''Qlat = {Qlat:.2f} W'' [ql]],
                           Inr \<lparr> \<phi> = f, wo = w, Vd = p cfg * Vp cfg / 3600,
                                 L = 2 * h cfg + 2 * l cfg, Qi = 70 * p cfg,
                                 Vinf = Vinf_of cfg, minf = mi, mp = mq,
                                 Qs = Qs_of cfg mi, Qla = p cfg * mvp cfg * l cfg,
                                 m = mm, Qlat = ql \<rparr>))))))"

subsection \<open>Lines 76 to 79 on real numbers: supply mass flow and supply humidity\<close>

text \<open>Line 76: \<^verbatim>\<open>m = -Qs / (c * (\<theta>s - \<theta>i))\<close>.\<close>

definition supply_m :: "config \<Rightarrow> real \<Rightarrow> stop + real" where
  "supply_m cfg q = real_div (- q) (c cfg * (\<theta>s cfg - \<theta>i cfg))"

definition supply_stage ::
  "config \<Rightarrow> real loads \<Rightarrow> real line list \<times> (stop + real outlet)" where
  "supply_stage cfg s =
     (case supply_m cfg (Qs s) of
        Inl x \<Rightarrow> ([], Inl x)
      | Inr m1 \<Rightarrow>
          (case real_div (Qlat s) (m1 * lat cfg) of
             Inl x \<Rightarrow> ([], Inl x)
           | Inr r \<Rightarrow>
               ([Line ''m = {m:.3f} kg/s, ws = {ws:.3f} kg/kg'' [m1, \<phi> s - r]],
                Inr (loads.extend (s\<lparr>m := m1\<rparr>) (outlet.fields (\<phi> s - r))))))"

subsection \<open>Lines 82 to 84 on real numbers: the clamp\<close>

definition clamp_stage :: "real outlet \<Rightarrow> real line list \<times> real outlet" where
  "clamp_stage s =
     (let s' = (if m s > mp s then s\<lparr>m := mp s\<rparr> else s)
      in ([Line ''m = {m:.3f} ks/s'' [m s']], s'))"

subsection \<open>The whole function on real numbers\<close>

definition thermal_load ::
  "config \<Rightarrow> env \<Rightarrow> real line list \<times> (stop + real outlet)" where
  "thermal_load cfg e =
     (case load_\<phi> e of
        Inl x \<Rightarrow> ([], Inl x)
      | Inr f \<Rightarrow>
          (case loads_stage cfg e f of
             (out1, Inl x) \<Rightarrow> (out1, Inl x)
           | (out1, Inr s1) \<Rightarrow>
               (case supply_stage cfg s1 of
                  (out2, Inl x) \<Rightarrow> (out1 @ out2, Inl x)
                | (out2, Inr s2) \<Rightarrow>
                    (case clamp_stage s2 of
                       (out3, s3) \<Rightarrow> (out1 @ out2 @ out3, Inr s3)))))"

definition calculate_thermal_load :: "env \<Rightarrow> real line list \<times> (stop + real outlet)" where
  "calculate_thermal_load e = thermal_load constants e"

subsection \<open>Reading a run on doubles as a run on real numbers\<close>

definition real_loads :: "float64 loads \<Rightarrow> real loads" where
  "real_loads s =
     \<lparr> \<phi> = val (\<phi> s), wo = val (wo s), Vd = val (Vd s), L = val (L s), Qi = val (Qi s),
       Vinf = val (Vinf s), minf = val (minf s), mp = val (mp s), Qs = val (Qs s),
       Qla = val (Qla s), m = val (m s), Qlat = val (Qlat s) \<rparr>"

definition real_outlet :: "float64 outlet \<Rightarrow> real outlet" where
  "real_outlet s = loads.extend (real_loads (loads.truncate s)) (outlet.fields (val (ws s)))"

definition finite_loads :: "float64 loads \<Rightarrow> bool" where
  "finite_loads s =
     (is_finite (\<phi> s) \<and> is_finite (wo s) \<and> is_finite (Vd s) \<and> is_finite (L s)
      \<and> is_finite (Qi s) \<and> is_finite (Vinf s) \<and> is_finite (minf s) \<and> is_finite (mp s)
      \<and> is_finite (Qs s) \<and> is_finite (Qla s) \<and> is_finite (m s) \<and> is_finite (Qlat s))"

definition finite_outlet :: "float64 outlet \<Rightarrow> bool" where
  "finite_outlet s = (finite_loads (loads.truncate s) \<and> is_finite (ws s))"

subsection \<open>Concrete environments\<close>

text \<open>
  A spreadsheet whose column \<open>I\<close> holds 40 (per cent) in row 4, with stand-ins for the
  psychrometric functions that return values of the usual magnitude at \<open>-7.3\<close> degrees,
  a humidity ratio of 0.0008 and a specific volume of 0.75, and nan for an argument
  that is not finite.
\<close>

definition sheet0 :: dataframe where
  "sheet0 =
     [(''H'', [Number 1, Number 2, Number 3, Number 4, Number 5]),
      (''I'', [Number 44, Number 43, Number 42, Number 41, Number 40])]"

definition env0 :: env where
  "env0 =
     \<lparr> read_excel = (\<lambda>path. if path = ''humidity.csv'' then Inr sheet0 else Inl FileNotFoundError),
       psy_w = (\<lambda>t f z. if is_finite f then Inr (Fin (1 / 1250)) else Inr NaN),
       psy_v = (\<lambda>t w. if is_finite w then Inr (Fin (3 / 4)) else Inr NaN) \<rparr>"

text \<open>
  The same environment with no file, with no column \<open>I\<close>, with four rows only, with text
  in the cell, and with a blank cell.
\<close>

definition env_missing :: env where
  "env_missing = env0\<lparr>read_excel := (\<lambda>path. Inl FileNotFoundError)\<rparr>"

definition env_nocolumn :: env where
  "env_nocolumn = env0\<lparr>read_excel := (\<lambda>path. Inr [(''H'', [Number 1, Number 2, Number 3, Number 4, Number 5])])\<rparr>"

definition env_short :: env where
  "env_short = env0\<lparr>read_excel := (\<lambda>path. Inr [(''I'', [Number 44, Number 43, Number 42, Number 41])])\<rparr>"

definition env_text :: env where
  "env_text = env0\<lparr>read_excel := (\<lambda>path. Inr [(''I'', [Number 44, Number 43, Number 42, Number 41, Text ''dry''])])\<rparr>"

definition env_blank :: env where
  "env_blank = env0\<lparr>read_excel := (\<lambda>path. Inr [(''I'', [Number 44, Number 43, Number 42, Number 41, Missing])])\<rparr>"


text \<open>The run on \<open>env0\<close>: the variables after line 73 and after line 79, and the lines printed by then.\<close>

definition loads0 :: "real loads" where
  "loads0 =
     \<lparr> \<phi> = 2 / 5, wo = 1 / 1250, Vd = 1 / 100, L = 22, Qi = 70,
       Vinf = 1 / 100, minf = 1 / 75, mp = 1 / 75,
       Qs = - (4518503 / 5000), Qla = 71 / 1200000, m = 1 / 75,
       Qlat = - (15942451129 / 1200000) \<rparr>"

definition outlet0 :: "real outlet" where
  "outlet0 =
     \<lparr> \<phi> = 2 / 5, wo = 1 / 1250, Vd = 1 / 100, L = 22, Qi = 70,
       Vinf = 1 / 100, minf = 1 / 75, mp = 1 / 75,
       Qs = - (4518503 / 5000), Qla = 71 / 1200000, m = 4518503 / 75000000,
       Qlat = - (15942451129 / 1200000), ws = 40055829751 / 82023152640 \<rparr>"

definition out1_0 :: "real line list" where
  "out1_0 =
     [Line ''Vinf = {Vinf:.2f} kg/s'' [1 / 100],
      Line ''Qs = {Qs:.2f} W'' [- (4518503 / 5000)],
      Line ''Qlat = {Qlat:.2f} W'' [- (15942451129 / 1200000)]]"

definition out2_0 :: "real line list" where
  "out2_0 =
     [Line ''m = {m:.3f} kg/s, ws = {ws:.3f} kg/kg''
        [4518503 / 75000000, 40055829751 / 82023152640]]"

text \<open>
  The run on doubles on \<open>env_blank\<close>: the variables at the end and the five lines printed.
\<close>

definition outlet_blank :: "float64 outlet" where
  "outlet_blank =
     \<lparr> \<phi> = NaN, wo = NaN, Vd = Fin (1 / 100), L = Fin 22, Qi = Fin 70,
       Vinf = Fin (1 / 100), minf = NaN, mp = NaN, Qs = NaN, Qla = Fin (71 / 1200000),
       m = NaN, Qlat = NaN, ws = NaN \<rparr>"

definition out_blank :: "float64 line list" where
  "out_blank =
     [Line ''Vinf = {Vinf:.2f} kg/s'' [Fin (1 / 100)],
      Line ''Qs = {Qs:.2f} W'' [NaN],
      Line ''Qlat = {Qlat:.2f} W'' [NaN],
      Line ''m = {m:.3f} kg/s, ws = {ws:.3f} kg/kg'' [NaN, NaN],
      Line ''m = {m:.3f} ks/s'' [NaN]]"





text \<open>
  Two variants of the constants with an outdoor temperature one and two degrees below the
  indoor 23, all else as the source has it.
\<close>

definition mild :: config where
  "mild = constants\<lparr>\<theta>o := 22\<rparr>"

definition cool :: config where
  "cool = constants\<lparr>\<theta>o := 21\<rparr>"

section \<open>Properties\<close>

subsection \<open>What a successful stage has computed\<close>

lemma real_result_Inr: "real_result r = Inr v \<longleftrightarrow> r = Inr (Fin v)"
  by (cases r rule: real_result.cases) simp_all

lemma real_result_Raised: "real_result r = Inl (Raised x) \<longleftrightarrow> r = Inl x"
  by (cases r rule: real_result.cases) simp_all

lemma real_div_Inr: "real_div a b = Inr r \<longleftrightarrow> b \<noteq> 0 \<and> r = a / b"
  by (auto simp: real_div_def)

lemma per_volume_Inr:
  "per_volume cfg e w a = Inr r \<longleftrightarrow>
     (\<exists>v. psy_v e (\<theta>o cfg) (Fin w) = Inr (Fin v) \<and> v \<noteq> 0 \<and> r = a / v)"
  by (auto simp: per_volume_def real_div_Inr real_result_Inr split: sum.splits)

lemma loads_stage_Inr:
  assumes "loads_stage cfg e f = (out, Inr s)"
  shows "\<exists>w v. psy_w e (\<theta>o cfg) (Fin f) 0 = Inr (Fin w)
           \<and> psy_v e (\<theta>o cfg) (Fin w) = Inr (Fin v) \<and> v \<noteq> 0
           \<and> s = \<lparr> \<phi> = f, wo = w, Vd = p cfg * Vp cfg / 3600,
                   L = 2 * h cfg + 2 * l cfg, Qi = 70 * p cfg,
                   Vinf = Vinf_of cfg, minf = Vinf_of cfg / v, mp = (p cfg * Vp cfg / 3600) / v,
                   Qs = Qs_of cfg (Vinf_of cfg / v), Qla = p cfg * mvp cfg * l cfg,
                   m = (p cfg * Vp cfg / 3600) / v,
                   Qlat = (p cfg * Vp cfg / 3600) / v * lat cfg * (w - f) + p cfg * mvp cfg * l cfg \<rparr>
           \<and> out = [Line ''Vinf = {Vinf:.2f} kg/s'' [Vinf_of cfg],
                    Line ''Qs = {Qs:.2f} W'' [Qs s],
                    Line ''Qlat = {Qlat:.2f} W'' [Qlat s]]"
  using assms
  by (auto simp: loads_stage_def per_volume_Inr real_result_Inr Let_def split: sum.splits)

lemma supply_stage_Inr:
  assumes "supply_stage cfg s = (out, Inr s2)"
  shows "c cfg * (\<theta>s cfg - \<theta>i cfg) \<noteq> 0 \<and> m s2 * lat cfg \<noteq> 0
         \<and> m s2 = - Qs s / (c cfg * (\<theta>s cfg - \<theta>i cfg))
         \<and> ws s2 = \<phi> s - Qlat s / (m s2 * lat cfg)
         \<and> loads.truncate s2 = s\<lparr>m := m s2\<rparr>
         \<and> out = [Line ''m = {m:.3f} kg/s, ws = {ws:.3f} kg/kg'' [m s2, ws s2]]"
  using assms
  by (auto simp: supply_stage_def supply_m_def real_div_Inr loads.extend_def loads.truncate_def outlet.fields_def split: sum.splits)

lemma thermal_load_Inr:
  "thermal_load cfg e = (out, Inr s3) \<longleftrightarrow>
     (\<exists>f o1 s1 o2 s2. load_\<phi> e = Inr f \<and> loads_stage cfg e f = (o1, Inr s1)
        \<and> supply_stage cfg s1 = (o2, Inr s2)
        \<and> out = o1 @ o2 @ fst (clamp_stage s2) \<and> s3 = snd (clamp_stage s2))"
  by (auto simp: thermal_load_def split: sum.splits prod.splits)


lemma loads_stage_total:
  assumes "psy_w e (\<theta>o cfg) (Fin f) 0 = Inr (Fin w)"
    and "psy_v e (\<theta>o cfg) (Fin w) = Inr (Fin v)" and "v \<noteq> 0"
  shows "loads_stage cfg e f =
     ([Line ''Vinf = {Vinf:.2f} kg/s'' [Vinf_of cfg],
       Line ''Qs = {Qs:.2f} W'' [Qs_of cfg (Vinf_of cfg / v)],
       Line ''Qlat = {Qlat:.2f} W''
         [(p cfg * Vp cfg / 3600) / v * lat cfg * (w - f) + p cfg * mvp cfg * l cfg]],
      Inr \<lparr> \<phi> = f, wo = w, Vd = p cfg * Vp cfg / 3600,
            L = 2 * h cfg + 2 * l cfg, Qi = 70 * p cfg,
            Vinf = Vinf_of cfg, minf = Vinf_of cfg / v, mp = (p cfg * Vp cfg / 3600) / v,
            Qs = Qs_of cfg (Vinf_of cfg / v), Qla = p cfg * mvp cfg * l cfg,
            m = (p cfg * Vp cfg / 3600) / v,
            Qlat = (p cfg * Vp cfg / 3600) / v * lat cfg * (w - f) + p cfg * mvp cfg * l cfg \<rparr>)"
  using assms by (simp add: loads_stage_def per_volume_def real_div_def Let_def)

subsection \<open>What a run on doubles has computed\<close>

lemma np_loads_stage_total:
  assumes "psy_w e (\<theta>o cfg) f 0 = Inr w" and "psy_v e (\<theta>o cfg) w = Inr v"
  shows "np_loads_stage cfg e f =
     ([Line ''Vinf = {Vinf:.2f} kg/s'' [np_Vinf cfg],
       Line ''Qs = {Qs:.2f} W'' [np_Qs cfg (np_div (np_Vinf cfg) v)],
       Line ''Qlat = {Qlat:.2f} W''
         [np_add (np_mul (np_mul (np_div (np_Vd cfg) v) (Fin (lat cfg))) (np_sub w f))
                 (np_Qla cfg)]],
      Inr \<lparr> \<phi> = f, wo = w, Vd = np_Vd cfg,
            L = Fin (2 * h cfg + 2 * l cfg), Qi = Fin (70 * p cfg),
            Vinf = np_Vinf cfg, minf = np_div (np_Vinf cfg) v, mp = np_div (np_Vd cfg) v,
            Qs = np_Qs cfg (np_div (np_Vinf cfg) v), Qla = np_Qla cfg,
            m = np_div (np_Vd cfg) v,
            Qlat = np_add (np_mul (np_mul (np_div (np_Vd cfg) v) (Fin (lat cfg))) (np_sub w f))
                          (np_Qla cfg) \<rparr>)"
  using assms by (simp add: np_loads_stage_def Let_def)

lemma np_thermal_load_run:
  assumes "np_load_\<phi> e = Inr f" and "np_loads_stage cfg e f = (o1, Inr s1)"
  shows "np_thermal_load cfg e =
     (o1 @ fst (np_supply_stage cfg s1) @ fst (np_clamp_stage (snd (np_supply_stage cfg s1))),
      Inr (snd (np_clamp_stage (snd (np_supply_stage cfg s1)))))"
  using assms by (simp add: np_thermal_load_def case_prod_beta)

lemma np_humidity_cell_cases:
  "np_load_\<phi> e =
     (case read_excel e ''humidity.csv'' of
        Inl x \<Rightarrow> Inl x
      | Inr df \<Rightarrow>
          (case map_of df ''I'' of
             None \<Rightarrow> Inl KeyError
           | Some cells \<Rightarrow>
               if 4 < length cells then np_cell_div (cells ! 4) 100 else Inl KeyError))"
  by (simp add: np_load_\<phi>_def df_at_def split: sum.splits option.splits)

lemma np_div_100: "np_div (Fin x) (Fin 100) = Fin (x / 100)"
  by (simp add: np_div_def fin_of_def zero_of_def)

lemma np_thermal_load_Inr:
  "np_thermal_load cfg e = (out, Inr s3) \<longleftrightarrow>
     (\<exists>f o1 s1. np_load_\<phi> e = Inr f \<and> np_loads_stage cfg e f = (o1, Inr s1)
        \<and> out = o1 @ fst (np_supply_stage cfg s1)
                  @ fst (np_clamp_stage (snd (np_supply_stage cfg s1)))
        \<and> s3 = snd (np_clamp_stage (snd (np_supply_stage cfg s1))))"
  by (auto simp: np_thermal_load_def split: sum.splits prod.splits)

lemma np_loads_stage_reading:
  assumes "np_loads_stage cfg e f = (out, Inr s)"
  shows "\<phi> s = f"
  using assms by (auto simp: np_loads_stage_def Let_def split: sum.splits)

lemma np_later_stages_frame:
  "\<phi> (snd (np_clamp_stage (snd (np_supply_stage cfg s)))) = \<phi> s"
  "ws (snd (np_clamp_stage (snd (np_supply_stage cfg s)))) = ws (snd (np_supply_stage cfg s))"
  "length (fst (np_supply_stage cfg s)) = 1"
  "length (fst (np_clamp_stage t)) = 1"
  by (simp_all add: np_clamp_stage_def np_supply_stage_def Let_def loads.extend_def
      outlet.fields_def)

lemma np_thermal_load_reading:
  assumes "np_load_\<phi> e = Inr f" and "np_thermal_load cfg e = (out, Inr s)"
  shows "\<phi> s = f"
  using assms np_loads_stage_reading
  by (auto simp: np_thermal_load_Inr np_later_stages_frame)

subsection \<open>Arithmetic on finite doubles\<close>

lemma val_np_neg [simp]: "val (np_neg a) = - val a"
  by (cases a) simp_all

lemma finite_np_neg [simp]: "is_finite (np_neg a) = is_finite a"
  by (cases a) simp_all

lemma finite_np_add [simp]: "is_finite a \<Longrightarrow> is_finite b \<Longrightarrow> is_finite (np_add a b)"
  by (cases a; cases b) (simp_all add: np_add_def)

lemma val_np_add [simp]: "is_finite a \<Longrightarrow> is_finite b \<Longrightarrow> val (np_add a b) = val a + val b"
  by (cases a; cases b) (simp_all add: np_add_def)

lemma finite_np_sub [simp]: "is_finite a \<Longrightarrow> is_finite b \<Longrightarrow> is_finite (np_sub a b)"
  by (simp add: np_sub_def)

lemma val_np_sub [simp]: "is_finite a \<Longrightarrow> is_finite b \<Longrightarrow> val (np_sub a b) = val a - val b"
  by (simp add: np_sub_def)

lemma finite_fin_of [simp]: "is_finite (fin_of neg r)"
  by (simp add: fin_of_def zero_of_def)

lemma val_fin_of [simp]: "val (fin_of neg r) = r"
  by (simp add: fin_of_def zero_of_def)

lemma finite_np_mul [simp]: "is_finite a \<Longrightarrow> is_finite b \<Longrightarrow> is_finite (np_mul a b)"
  by (cases a; cases b) (simp_all add: np_mul_def)

lemma val_np_mul [simp]: "is_finite a \<Longrightarrow> is_finite b \<Longrightarrow> val (np_mul a b) = val a * val b"
  by (cases a; cases b) (simp_all add: np_mul_def)

lemma finite_np_div [simp]:
  "is_finite a \<Longrightarrow> is_finite b \<Longrightarrow> val b \<noteq> 0 \<Longrightarrow> is_finite (np_div a b)"
  by (cases a; cases b) (simp_all add: np_div_def)

lemma val_np_div [simp]:
  "is_finite a \<Longrightarrow> is_finite b \<Longrightarrow> val b \<noteq> 0 \<Longrightarrow> val (np_div a b) = val a / val b"
  by (cases a; cases b) (simp_all add: np_div_def)

lemma np_gt_finite: "is_finite a \<Longrightarrow> is_finite b \<Longrightarrow> np_gt a b = (val b < val a)"
  by (cases a; cases b) (simp_all add: np_gt_def)

lemmas np_ops = np_div_def np_mul_def np_add_def np_sub_def np_gt_def fin_of_def zero_of_def
  inf_of_def






subsection \<open>A run on real numbers is a run on doubles\<close>

lemma np_loads_stage_m:
  assumes "np_loads_stage cfg e f = (out, Inr s)"
  shows "m s = mp s"
  using assms by (auto simp: np_loads_stage_def Let_def split: sum.splits)

lemma loads_stage_np:
  assumes "loads_stage cfg e f = (out, Inr s)"
  shows "\<exists>out' s'. np_loads_stage cfg e (Fin f) = (out', Inr s') \<and> finite_loads s'
           \<and> real_loads s' = s \<and> map (map_line val) out' = out"
proof -
  from loads_stage_Inr [OF assms] obtain w v where
    w: "psy_w e (\<theta>o cfg) (Fin f) 0 = Inr (Fin w)"
    and v: "psy_v e (\<theta>o cfg) (Fin w) = Inr (Fin v)" "v \<noteq> 0"
    and s: "s = \<lparr> \<phi> = f, wo = w, Vd = p cfg * Vp cfg / 3600,
                   L = 2 * h cfg + 2 * l cfg, Qi = 70 * p cfg,
                   Vinf = Vinf_of cfg, minf = Vinf_of cfg / v, mp = (p cfg * Vp cfg / 3600) / v,
                   Qs = Qs_of cfg (Vinf_of cfg / v), Qla = p cfg * mvp cfg * l cfg,
                   m = (p cfg * Vp cfg / 3600) / v,
                   Qlat = (p cfg * Vp cfg / 3600) / v * lat cfg * (w - f) + p cfg * mvp cfg * l cfg \<rparr>"
    and out: "out = [Line ''Vinf = {Vinf:.2f} kg/s'' [Vinf_of cfg],
                    Line ''Qs = {Qs:.2f} W'' [Qs s],
                    Line ''Qlat = {Qlat:.2f} W'' [Qlat s]]"
    by blast
  have fv: "is_finite (np_Vinf cfg)" "val (np_Vinf cfg) = Vinf_of cfg"
    "is_finite (np_Vd cfg)" "val (np_Vd cfg) = p cfg * Vp cfg / 3600"
    "is_finite (np_Qla cfg)" "val (np_Qla cfg) = p cfg * mvp cfg * l cfg"
    by (simp_all add: np_Vinf_def np_Vd_def np_Qla_def Vinf_of_def)
  have fq: "is_finite (np_Qs cfg x) \<and> val (np_Qs cfg x) = Qs_of cfg (val x)" if "is_finite x" for x
    using that by (simp add: np_Qs_def Qs_of_def Let_def)
  have fm: "is_finite (np_div (np_Vinf cfg) (Fin v))"
    "is_finite (np_div (np_Vd cfg) (Fin v))"
    using v(2) fv(1,3) by simp_all
  have "val (np_div (np_Vinf cfg) (Fin v)) = val (np_Vinf cfg) / v"
    "val (np_div (np_Vd cfg) (Fin v)) = val (np_Vd cfg) / v"
    using v(2) fv(1,3) by simp_all
  then have vm: "val (np_div (np_Vinf cfg) (Fin v)) = Vinf_of cfg / v"
    "val (np_div (np_Vd cfg) (Fin v)) = p cfg * Vp cfg / 3600 / v"
    by (simp_all only: fv(2,4))
  note q = fq [OF fm(1)]
  let ?mi = "np_div (np_Vinf cfg) (Fin v)"
  let ?mm = "np_div (np_Vd cfg) (Fin v)"
  let ?ql = "np_add (np_mul (np_mul ?mm (Fin (lat cfg))) (np_sub (Fin w) (Fin f))) (np_Qla cfg)"
  have ql: "is_finite ?ql"
    "val ?ql = (p cfg * Vp cfg / 3600) / v * lat cfg * (w - f) + p cfg * mvp cfg * l cfg"
    using fm(2) fv(5) by (simp_all add: vm(2) fv(6))
  have run: "np_loads_stage cfg e (Fin f) =
     ([Line ''Vinf = {Vinf:.2f} kg/s'' [np_Vinf cfg],
       Line ''Qs = {Qs:.2f} W'' [np_Qs cfg ?mi],
       Line ''Qlat = {Qlat:.2f} W'' [?ql]],
      Inr \<lparr> \<phi> = Fin f, wo = Fin w, Vd = np_Vd cfg,
            L = Fin (2 * h cfg + 2 * l cfg), Qi = Fin (70 * p cfg),
            Vinf = np_Vinf cfg, minf = ?mi, mp = ?mm,
            Qs = np_Qs cfg ?mi, Qla = np_Qla cfg, m = ?mm, Qlat = ?ql \<rparr>)"
    using w v(1) by (simp add: np_loads_stage_def Let_def)
  show ?thesis
    unfolding run
    using fv(1,3,5) fm q ql(1)
    by (simp add: finite_loads_def real_loads_def s out fv(2,4,6) vm ql(2))
qed

lemma supply_stage_np:
  assumes run: "supply_stage cfg s = (out, Inr s2)"
    and fin: "finite_loads s'" and eq: "real_loads s' = s"
  shows "finite_outlet (snd (np_supply_stage cfg s'))
         \<and> real_outlet (snd (np_supply_stage cfg s')) = s2
         \<and> map (map_line val) (fst (np_supply_stage cfg s')) = out"
proof -
  from supply_stage_Inr [OF run]
  have d: "c cfg * (\<theta>s cfg - \<theta>i cfg) \<noteq> 0" and nz: "m s2 * lat cfg \<noteq> 0"
    and m2: "m s2 = - Qs s / (c cfg * (\<theta>s cfg - \<theta>i cfg))"
    and w2: "ws s2 = \<phi> s - Qlat s / (m s2 * lat cfg)"
    and tr: "loads.truncate s2 = s\<lparr>m := m s2\<rparr>"
    and out: "out = [Line ''m = {m:.3f} kg/s, ws = {ws:.3f} kg/kg'' [m s2, ws s2]]"
    by blast+
  from eq have q: "val (Qs s') = Qs s" "val (Qlat s') = Qlat s" "val (\<phi> s') = \<phi> s"
    by (auto simp: real_loads_def)
  from fin have f: "is_finite (Qs s')" "is_finite (Qlat s')" "is_finite (\<phi> s')"
    by (simp_all add: finite_loads_def)
  let ?m1 = "np_div (np_neg (Qs s')) (Fin (c cfg * (\<theta>s cfg - \<theta>i cfg)))"
  have m1: "is_finite ?m1" "val ?m1 = m s2"
    using d f q by (simp_all add: m2)
  let ?d = "np_mul ?m1 (Fin (lat cfg))"
  have dd: "is_finite ?d" "val ?d = m s2 * lat cfg"
    using m1 by simp_all
  let ?w1 = "np_sub (\<phi> s') (np_div (Qlat s') ?d)"
  have w1: "is_finite ?w1" "val ?w1 = ws s2"
    using dd nz f q by (simp_all add: w2)
  have s2: "s2 = loads.extend (s\<lparr>m := m s2\<rparr>) (outlet.fields (ws s2))"
    using tr by (cases s2; cases s) (simp add: loads.truncate_def loads.extend_def outlet.fields_def)
  have st: "snd (np_supply_stage cfg s') = loads.extend (s'\<lparr>m := ?m1\<rparr>) (outlet.fields ?w1)"
    and ol: "fst (np_supply_stage cfg s')
        = [Line ''m = {m:.3f} kg/s, ws = {ws:.3f} kg/kg'' [?m1, ?w1]]"
    by (simp_all add: np_supply_stage_def Let_def)
  have "finite_outlet (snd (np_supply_stage cfg s'))"
    unfolding st using fin m1 w1
    by (simp add: finite_outlet_def finite_loads_def loads.extend_def loads.truncate_def
        outlet.fields_def)
  moreover have "real_outlet (snd (np_supply_stage cfg s')) = s2"
    unfolding st
    using eq m1 w1
    by (subst s2) (simp add: real_outlet_def real_loads_def loads.extend_def loads.truncate_def
        outlet.fields_def, cases s, auto)
  moreover have "map (map_line val) (fst (np_supply_stage cfg s')) = out"
    unfolding ol using m1 w1 by (simp add: out)
  ultimately show ?thesis by blast
qed


lemma clamp_stage_np:
  assumes "finite_outlet s'"
  shows "finite_outlet (snd (np_clamp_stage s'))
         \<and> real_outlet (snd (np_clamp_stage s')) = snd (clamp_stage (real_outlet s'))
         \<and> map (map_line val) (fst (np_clamp_stage s')) = fst (clamp_stage (real_outlet s'))"
proof -
  from assms have f: "is_finite (m s')" "is_finite (mp s')"
    by (simp_all add: finite_outlet_def finite_loads_def loads.truncate_def)
  have g: "np_gt (m s') (mp s') = (m (real_outlet s') > mp (real_outlet s'))"
    using f by (simp add: np_gt_finite real_outlet_def real_loads_def loads.truncate_def
        loads.extend_def)
  show ?thesis
    using assms
    by (simp add: np_clamp_stage_def clamp_stage_def Let_def g [symmetric])
      (simp add: finite_outlet_def finite_loads_def real_outlet_def real_loads_def
        loads.truncate_def loads.extend_def outlet.fields_def)
qed

lemma thermal_load_np:
  assumes "thermal_load cfg e = (out, Inr s)"
  shows "\<exists>out' s'. np_thermal_load cfg e = (out', Inr s') \<and> finite_outlet s'
           \<and> real_outlet s' = s \<and> map (map_line val) out' = out"
proof -
  from assms obtain f o1 s1 o2 s2 where
    a: "load_\<phi> e = Inr f" and b: "loads_stage cfg e f = (o1, Inr s1)"
    and d: "supply_stage cfg s1 = (o2, Inr s2)"
    and out: "out = o1 @ o2 @ fst (clamp_stage s2)" and s: "s = snd (clamp_stage s2)"
    unfolding thermal_load_Inr by blast
  from a have a': "np_load_\<phi> e = Inr (Fin f)"
    by (simp add: load_\<phi>_def real_result_Inr)
  from loads_stage_np [OF b] obtain o1' s1' where
    b': "np_loads_stage cfg e (Fin f) = (o1', Inr s1')" and f1: "finite_loads s1'"
    and r1: "real_loads s1' = s1" and l1: "map (map_line val) o1' = o1"
    by blast
  let ?t = "np_supply_stage cfg s1'"
  from supply_stage_np [OF d f1 r1]
  have f2: "finite_outlet (snd ?t)" and r2: "real_outlet (snd ?t) = s2"
    and l2: "map (map_line val) (fst ?t) = o2"
    by blast+
  from clamp_stage_np [OF f2]
  have f3: "finite_outlet (snd (np_clamp_stage (snd ?t)))"
    and r3: "real_outlet (snd (np_clamp_stage (snd ?t))) = snd (clamp_stage s2)"
    and l3: "map (map_line val) (fst (np_clamp_stage (snd ?t))) = fst (clamp_stage s2)"
    unfolding r2 by blast+
  show ?thesis
    unfolding np_thermal_load_run [OF a' b']
    using f3 r3 l1 l2 l3 by (simp add: out s)
qed

lemma thermal_load_np_raised:
  assumes "thermal_load cfg e = (out, Inl (Raised x))"
  shows "\<exists>out'. np_thermal_load cfg e = (out', Inl x) \<and> map (map_line val) out' = out"
  using assms
  by (auto simp: thermal_load_def np_thermal_load_def load_\<phi>_def real_result_Inr
      real_result_Raised loads_stage_def np_loads_stage_def per_volume_def real_div_def Let_def
      supply_stage_def supply_m_def
      split: sum.splits prod.splits if_splits)


subsection \<open>The runs on the concrete environments\<close>

lemma env0_np_load: "np_load_\<phi> env0 = Inr (Fin (2 / 5))"
  by (simp add: np_load_\<phi>_def env0_def sheet0_def df_at_def np_div_def fin_of_def)

lemma env0_load: "load_\<phi> env0 = Inr (2 / 5)"
  by (simp add: load_\<phi>_def env0_np_load)

lemma env0_loads: "loads_stage constants env0 (2 / 5) = (out1_0, Inr loads0)"
  by (simp add: loads_stage_def per_volume_def real_div_def Vinf_of_def Qs_of_def
      constants_def env0_def loads0_def out1_0_def Let_def)

lemma env0_supply: "supply_stage constants loads0 = (out2_0, Inr outlet0)"
  by (simp add: supply_stage_def supply_m_def real_div_def \<theta>s_def constants_def loads0_def
      outlet0_def out2_0_def loads.extend_def outlet.fields_def)

lemma env_blank_load: "np_load_\<phi> env_blank = Inr NaN"
  by (simp add: np_load_\<phi>_def env_blank_def env0_def df_at_def)

lemma env_blank_run: "np_calculate_thermal_load env_blank = (out_blank, Inr outlet_blank)"
proof -
  have a: "np_loads_stage constants env_blank NaN =
      ([Line ''Vinf = {Vinf:.2f} kg/s'' [Fin (1 / 100)],
        Line ''Qs = {Qs:.2f} W'' [NaN],
        Line ''Qlat = {Qlat:.2f} W'' [NaN]],
       Inr \<lparr> \<phi> = NaN, wo = NaN, Vd = Fin (1 / 100), L = Fin 22, Qi = Fin 70,
       Vinf = Fin (1 / 100), minf = NaN, mp = NaN, Qs = NaN, Qla = Fin (71 / 1200000),
       m = NaN, Qlat = NaN \<rparr>)"
    by (simp add: np_loads_stage_def Let_def env_blank_def env0_def constants_def np_Vinf_def
        np_Vd_def np_Qla_def np_Qs_def np_ops)
  show ?thesis
    unfolding np_calculate_thermal_load_def np_thermal_load_run [OF env_blank_load a]
    by (simp add: np_supply_stage_def np_clamp_stage_def Let_def constants_def \<theta>s_def np_ops
        out_blank_def outlet_blank_def loads.extend_def outlet.fields_def)
qed




subsection \<open>The clamp\<close>

text \<open>
  Claim C1. For every unclamped supply flow \<open>m\<close> and every per-person flow \<open>mp\<close>, the
  clamp of lines 82 to 84 leaves \<open>mp\<close> in \<open>m\<close> when \<open>m > mp\<close> and leaves \<open>m\<close> as it is
  otherwise, that is, the minimum of the two; nothing else changes, and the line printed
  last shows that value. In a run that reaches line 76, the final \<open>m\<close> is the minimum of
  the flow of line 76 and the \<open>mp\<close> of line 63.
\<close>

theorem clamp_is_min:
  "m (snd (clamp_stage s)) = (if m s > mp s then mp s else m s)
   \<and> snd (clamp_stage s) = s\<lparr>m := min (m s) (mp s)\<rparr>
   \<and> fst (clamp_stage s) = [Line ''m = {m:.3f} ks/s'' [min (m s) (mp s)]]
   \<and> (load_\<phi> e = Inr f \<and> loads_stage cfg e f = (o1, Inr s1) \<and> supply_stage cfg s1 = (o2, Inr s2)
        \<longrightarrow> (\<exists>out s3. thermal_load cfg e = (out, Inr s3)
              \<and> m s3 = (if m s2 > mp s1 then mp s1 else m s2)
              \<and> last out = Line ''m = {m:.3f} ks/s'' [m s3]))"
proof -
  have a: "snd (clamp_stage s) = s\<lparr>m := min (m s) (mp s)\<rparr>" for s :: "real outlet"
    by (simp add: clamp_stage_def Let_def min_def)
  have b: "fst (clamp_stage s) = [Line ''m = {m:.3f} ks/s'' [min (m s) (mp s)]]" for s :: "real outlet"
    by (simp add: clamp_stage_def Let_def min_def)
  have c: "mp s2 = mp s1" if "supply_stage cfg s1 = (o2, Inr s2)"
  proof -
    from supply_stage_Inr [OF that] have "loads.truncate s2 = s1\<lparr>m := m s2\<rparr>" by simp
    then have "mp (loads.truncate s2) = mp s1" by simp
    then show ?thesis by (simp add: loads.truncate_def)
  qed
  show ?thesis
    using c by (auto simp: a b thermal_load_Inr min_def)
qed

text \<open>On \<open>env0\<close> the clamp fires: the run ends with \<open>m = mp = 1/75\<close>.\<close>

theorem clamp_is_min_witness:
  "\<exists>out s3. calculate_thermal_load env0 = (out, Inr s3) \<and> m s3 = 1 / 75
      \<and> last out = Line ''m = {m:.3f} ks/s'' [m s3]"
proof -
  have "load_\<phi> env0 = Inr (2 / 5) \<and> loads_stage constants env0 (2 / 5) = (out1_0, Inr loads0)
        \<and> supply_stage constants loads0 = (out2_0, Inr outlet0)"
    by (simp add: env0_load env0_loads env0_supply)
  with clamp_is_min [where e = env0 and cfg = constants and ?s2.0 = outlet0 and ?s1.0 = loads0]
  have "\<exists>out s3. thermal_load constants env0 = (out, Inr s3)
          \<and> m s3 = (if m outlet0 > mp loads0 then mp loads0 else m outlet0)
          \<and> last out = Line ''m = {m:.3f} ks/s'' [m s3]"
    by blast
  then show ?thesis
    by (simp add: calculate_thermal_load_def loads0_def outlet0_def)
qed


subsection \<open>Supply flow and supply humidity\<close>

text \<open>
  Claim C2. For every state handed to lines 76 to 79, whatever its \<open>Qs\<close> and \<open>Qlat\<close>: the
  supply flow is \<open>m = - Qs / (c * (\<theta>s - \<theta>i))\<close> and the supply humidity is
  \<open>ws = \<phi> - Qlat / (m * lat)\<close>; \<open>\<theta>s\<close> exceeds \<open>\<theta>i\<close>, so a negative \<open>Qs\<close> gives a strictly
  positive \<open>m\<close>. The two lines do return a result whenever \<open>Qs\<close> is not zero.
\<close>

theorem supply_flow_and_humidity:
  "(Qs s \<noteq> 0 \<longrightarrow> (\<exists>out s2. supply_stage constants s = (out, Inr s2)))
   \<and> (supply_stage constants s = (out, Inr s2) \<longrightarrow>
        m s2 = - Qs s / (c constants * (\<theta>s constants - \<theta>i constants))
        \<and> ws s2 = \<phi> s - Qlat s / (m s2 * lat constants)
        \<and> \<theta>i constants < \<theta>s constants
        \<and> (Qs s < 0 \<longrightarrow> 0 < m s2))"
proof -
  have pos: "0 < c constants * (\<theta>s constants - \<theta>i constants)"
    by (simp add: constants_def \<theta>s_def)
  have "\<exists>out s2. supply_stage constants s = (out, Inr s2)" if "Qs s \<noteq> 0"
    using that by (simp add: supply_stage_def supply_m_def real_div_def constants_def \<theta>s_def)
  moreover have "m s2 = - Qs s / (c constants * (\<theta>s constants - \<theta>i constants))
        \<and> ws s2 = \<phi> s - Qlat s / (m s2 * lat constants)
        \<and> \<theta>i constants < \<theta>s constants
        \<and> (Qs s < 0 \<longrightarrow> 0 < m s2)" if run: "supply_stage constants s = (out, Inr s2)"
  proof -
    from supply_stage_Inr [OF run]
    have eq: "m s2 = - Qs s / (c constants * (\<theta>s constants - \<theta>i constants))"
      and w: "ws s2 = \<phi> s - Qlat s / (m s2 * lat constants)"
      by simp_all
    have "0 < m s2" if "Qs s < 0"
      unfolding eq using that pos by (simp add: divide_neg_pos)
    moreover have "\<theta>i constants < \<theta>s constants"
      by (simp add: \<theta>s_def)
    ultimately show ?thesis using eq w by blast
  qed
  ultimately show ?thesis by blast
qed

text \<open>The state of \<open>env0\<close> after line 73 has a negative \<open>Qs\<close>; lines 76 to 79 succeed on it.\<close>

theorem supply_flow_and_humidity_witness:
  "Qs loads0 < 0 \<and> supply_stage constants loads0 = (out2_0, Inr outlet0)
   \<and> m outlet0 = - Qs loads0 / 15000 \<and> 0 < m outlet0
   \<and> ws outlet0 = \<phi> loads0 - Qlat loads0 / (m outlet0 * 2496000)"
  using supply_flow_and_humidity [of loads0 out2_0 outlet0] env0_supply
  by (simp add: loads0_def outlet0_def constants_def \<theta>s_def)

subsection \<open>Sensible load\<close>

text \<open>
  Claim C3. Whenever \<^verbatim>\<open>psy.w\<close> and \<^verbatim>\<open>psy.v\<close> return real numbers and the specific
  volume is not zero, lines 46 to 73 complete with real values, and the description on
  real numbers completes in that case only. The infiltration mass flow is then \<open>minf = (ACH * V / 3600) / psy.v(\<theta>o, wo)\<close> and the sensible load is
  \<open>Qs = Uw * Sw * (\<theta>o - \<theta>i) + minf * c * (\<theta>o - \<theta>i) + \<psi> * L * (\<theta>o - \<theta>i) + Qi\<close> with
  \<open>L = 2 * h + 2 * l\<close> and \<open>Qi = 70 * p\<close>, for every value of \<open>minf\<close> and every choice of the
  constants; it is the value printed on the second line, and the value the line-by-line
  run on doubles computes.
\<close>

theorem sensible_load:
  "(psy_w e (\<theta>o cfg) (Fin f) 0 = Inr (Fin w) \<and> psy_v e (\<theta>o cfg) (Fin w) = Inr (Fin v) \<and> v \<noteq> 0
      \<longrightarrow> (\<exists>out s out' s'.
             loads_stage cfg e f = (out, Inr s)
             \<and> minf s = ACH cfg * V cfg / 3600 / v
             \<and> Qs s = Uw cfg * Sw cfg * (\<theta>o cfg - \<theta>i cfg) + minf s * c cfg * (\<theta>o cfg - \<theta>i cfg)
                      + \<psi> cfg * L s * (\<theta>o cfg - \<theta>i cfg) + Qi s
             \<and> L s = 2 * h cfg + 2 * l cfg
             \<and> Qi s = 70 * p cfg
             \<and> out ! 1 = Line ''Qs = {Qs:.2f} W'' [Qs s]
             \<and> np_loads_stage cfg e (Fin f) = (out', Inr s')
             \<and> is_finite (Qs s') \<and> val (Qs s') = Qs s
             \<and> is_finite (minf s') \<and> val (minf s') = minf s))
   \<and> (loads_stage cfg e f = (out, Inr s) \<longrightarrow>
        (\<exists>w v. psy_w e (\<theta>o cfg) (Fin f) 0 = Inr (Fin w)
              \<and> psy_v e (\<theta>o cfg) (Fin w) = Inr (Fin v) \<and> v \<noteq> 0
              \<and> minf s = ACH cfg * V cfg / 3600 / v)
        \<and> Qs s = Uw cfg * Sw cfg * (\<theta>o cfg - \<theta>i cfg) + minf s * c cfg * (\<theta>o cfg - \<theta>i cfg)
                 + \<psi> cfg * L s * (\<theta>o cfg - \<theta>i cfg) + Qi s
        \<and> L s = 2 * h cfg + 2 * l cfg
        \<and> Qi s = 70 * p cfg
        \<and> Qs s = Qs_of cfg (minf s)
        \<and> out ! 1 = Line ''Qs = {Qs:.2f} W'' [Qs s])"
proof (intro conjI impI)
  assume h: "psy_w e (\<theta>o cfg) (Fin f) 0 = Inr (Fin w)
      \<and> psy_v e (\<theta>o cfg) (Fin w) = Inr (Fin v) \<and> v \<noteq> 0"
  then have p1: "psy_w e (\<theta>o cfg) (Fin f) 0 = Inr (Fin w)"
    and p2: "psy_v e (\<theta>o cfg) (Fin w) = Inr (Fin v)" and p3: "v \<noteq> 0"
    by blast+
  from loads_stage_total [OF p1 p2 p3] obtain out0 s0 where
    run: "loads_stage cfg e f = (out0, Inr s0)"
    by blast
  from loads_stage_Inr [OF run] obtain w' v' where
    q1: "psy_w e (\<theta>o cfg) (Fin f) 0 = Inr (Fin w')"
    and q2: "psy_v e (\<theta>o cfg) (Fin w') = Inr (Fin v')" and q3: "v' \<noteq> 0"
    and s: "s0 = \<lparr> \<phi> = f, wo = w', Vd = p cfg * Vp cfg / 3600,
                   L = 2 * h cfg + 2 * l cfg, Qi = 70 * p cfg,
                   Vinf = Vinf_of cfg, minf = Vinf_of cfg / v', mp = (p cfg * Vp cfg / 3600) / v',
                   Qs = Qs_of cfg (Vinf_of cfg / v'), Qla = p cfg * mvp cfg * l cfg,
                   m = (p cfg * Vp cfg / 3600) / v',
                   Qlat = (p cfg * Vp cfg / 3600) / v' * lat cfg * (w' - f) + p cfg * mvp cfg * l cfg \<rparr>"
    and out: "out0 = [Line ''Vinf = {Vinf:.2f} kg/s'' [Vinf_of cfg],
                    Line ''Qs = {Qs:.2f} W'' [Qs s0],
                    Line ''Qlat = {Qlat:.2f} W'' [Qlat s0]]"
    by blast
  from p1 q1 have w: "w' = w" by simp
  with p2 q2 have v: "v' = v" by simp
  from loads_stage_np [OF run] obtain out' s' where
    np: "np_loads_stage cfg e (Fin f) = (out', Inr s')" and fin: "finite_loads s'"
    and eq: "real_loads s' = s0"
    by blast
  from eq have "Qs (real_loads s') = Qs s0" "minf (real_loads s') = minf s0"
    by simp_all
  then have v1: "val (Qs s') = Qs s0" "val (minf s') = minf s0"
    by (simp_all add: real_loads_def)
  from fin have v2: "is_finite (Qs s')" "is_finite (minf s')"
    by (simp_all add: finite_loads_def)
  have a: "minf s0 = ACH cfg * V cfg / 3600 / v" "L s0 = 2 * h cfg + 2 * l cfg"
    "Qi s0 = 70 * p cfg"
    "Qs s0 = Uw cfg * Sw cfg * (\<theta>o cfg - \<theta>i cfg) + minf s0 * c cfg * (\<theta>o cfg - \<theta>i cfg)
             + \<psi> cfg * L s0 * (\<theta>o cfg - \<theta>i cfg) + Qi s0"
    by (simp_all add: s v Vinf_of_def Qs_of_def)
  have l: "out0 ! 1 = Line ''Qs = {Qs:.2f} W'' [Qs s0]"
    by (subst out) simp
  from run np a l v1 v2
  show "\<exists>out s out' s'.
             loads_stage cfg e f = (out, Inr s)
             \<and> minf s = ACH cfg * V cfg / 3600 / v
             \<and> Qs s = Uw cfg * Sw cfg * (\<theta>o cfg - \<theta>i cfg) + minf s * c cfg * (\<theta>o cfg - \<theta>i cfg)
                      + \<psi> cfg * L s * (\<theta>o cfg - \<theta>i cfg) + Qi s
             \<and> L s = 2 * h cfg + 2 * l cfg
             \<and> Qi s = 70 * p cfg
             \<and> out ! 1 = Line ''Qs = {Qs:.2f} W'' [Qs s]
             \<and> np_loads_stage cfg e (Fin f) = (out', Inr s')
             \<and> is_finite (Qs s') \<and> val (Qs s') = Qs s
             \<and> is_finite (minf s') \<and> val (minf s') = minf s"
    by blast
next
  assume run: "loads_stage cfg e f = (out, Inr s)"
  from loads_stage_Inr [OF run] obtain w' v' where
    q1: "psy_w e (\<theta>o cfg) (Fin f) 0 = Inr (Fin w')"
    and q2: "psy_v e (\<theta>o cfg) (Fin w') = Inr (Fin v')" and q3: "v' \<noteq> 0"
    and s: "s = \<lparr> \<phi> = f, wo = w', Vd = p cfg * Vp cfg / 3600,
                   L = 2 * h cfg + 2 * l cfg, Qi = 70 * p cfg,
                   Vinf = Vinf_of cfg, minf = Vinf_of cfg / v', mp = (p cfg * Vp cfg / 3600) / v',
                   Qs = Qs_of cfg (Vinf_of cfg / v'), Qla = p cfg * mvp cfg * l cfg,
                   m = (p cfg * Vp cfg / 3600) / v',
                   Qlat = (p cfg * Vp cfg / 3600) / v' * lat cfg * (w' - f) + p cfg * mvp cfg * l cfg \<rparr>"
    and out: "out = [Line ''Vinf = {Vinf:.2f} kg/s'' [Vinf_of cfg],
                    Line ''Qs = {Qs:.2f} W'' [Qs s],
                    Line ''Qlat = {Qlat:.2f} W'' [Qlat s]]"
    by blast
  from q1 q2 q3 show "\<exists>w v. psy_w e (\<theta>o cfg) (Fin f) 0 = Inr (Fin w)
              \<and> psy_v e (\<theta>o cfg) (Fin w) = Inr (Fin v) \<and> v \<noteq> 0
              \<and> minf s = ACH cfg * V cfg / 3600 / v"
    by (auto simp: s Vinf_of_def)
  show "Qs s = Uw cfg * Sw cfg * (\<theta>o cfg - \<theta>i cfg) + minf s * c cfg * (\<theta>o cfg - \<theta>i cfg)
                 + \<psi> cfg * L s * (\<theta>o cfg - \<theta>i cfg) + Qi s"
    by (simp add: s Qs_of_def)
  show "L s = 2 * h cfg + 2 * l cfg" "Qi s = 70 * p cfg" "Qs s = Qs_of cfg (minf s)"
    by (simp_all add: s)
  show "out ! 1 = Line ''Qs = {Qs:.2f} W'' [Qs s]"
    by (subst out) simp
qed

text \<open>
  On \<open>env0\<close>, with the constants of the source: the specific volume is \<open>3/4\<close>, so \<open>minf\<close> is
  \<open>(0.5 * 72 / 3600) / (3/4) = 1/75\<close>.
\<close>

theorem sensible_load_witness:
  "loads_stage constants env0 (2 / 5) = (out1_0, Inr loads0)
   \<and> minf loads0 = 0.5 * 72 / 3600 / (3 / 4)
   \<and> Qs loads0 = 0.7 * 24 * (- 7.3 - 23) + minf loads0 * 1000 * (- 7.3 - 23)
                   + 0.091 * 22 * (- 7.3 - 23) + 70
   \<and> (\<exists>out' s'. np_loads_stage constants env0 (Fin (2 / 5)) = (out', Inr s')
          \<and> is_finite (Qs s') \<and> val (Qs s') = Qs loads0)"
proof -
  have h: "psy_w env0 (\<theta>o constants) (Fin (2 / 5)) 0 = Inr (Fin (1 / 1250))
      \<and> psy_v env0 (\<theta>o constants) (Fin (1 / 1250)) = Inr (Fin (3 / 4)) \<and> (3 / 4 :: real) \<noteq> 0"
    by (simp add: env0_def)
  from sensible_load [of env0 constants "2 / 5" "1 / 1250" "3 / 4" out1_0 loads0] h env0_loads
  show ?thesis
    by (auto simp: loads0_def constants_def)
qed

subsection \<open>Latent load\<close>

text \<open>
  Claim C4. Whenever \<^verbatim>\<open>psy.w\<close> and \<^verbatim>\<open>psy.v\<close> return real numbers and the specific
  volume is not zero, lines 46 to 73 complete with real values, and the description on
  real numbers completes in that case only. The state they leave holds
  the reading in \<open>\<phi>\<close> and \<^verbatim>\<open>psy.w(\<theta>o, \<phi>, 0)\<close> in \<open>wo\<close>; the \<open>m\<close> of line 71 is computed by
  the same expression \<open>Vd / psy.v(\<theta>o, wo)\<close> as the \<open>mp\<close> of line 63, with
  \<open>Vd = p * Vp / 3600\<close>, so the two are equal; and the latent load is
  \<open>Qlat = m * lat * (wo - \<phi>) + Qla\<close> with \<open>Qla = p * mvp * l\<close>. It is the value printed on
  the third line, and the value the line-by-line run on doubles computes.
\<close>

theorem latent_load:
  "(psy_w e (\<theta>o cfg) (Fin f) 0 = Inr (Fin w) \<and> psy_v e (\<theta>o cfg) (Fin w) = Inr (Fin v) \<and> v \<noteq> 0
      \<longrightarrow> (\<exists>out s out' s'.
             loads_stage cfg e f = (out, Inr s)
             \<and> \<phi> s = f \<and> wo s = w
             \<and> Vd s = p cfg * Vp cfg / 3600
             \<and> m s = Vd s / v \<and> mp s = Vd s / v
             \<and> Qla s = p cfg * mvp cfg * l cfg
             \<and> Qlat s = m s * lat cfg * (wo s - \<phi> s) + Qla s
             \<and> out ! 2 = Line ''Qlat = {Qlat:.2f} W'' [Qlat s]
             \<and> np_loads_stage cfg e (Fin f) = (out', Inr s')
             \<and> is_finite (Qlat s') \<and> val (Qlat s') = Qlat s
             \<and> is_finite (m s') \<and> val (m s') = m s \<and> m s' = mp s'))
   \<and> (loads_stage cfg e f = (out, Inr s) \<longrightarrow>
        \<phi> s = f
        \<and> psy_w e (\<theta>o cfg) (Fin f) 0 = Inr (Fin (wo s))
        \<and> Qlat s = m s * lat cfg * (wo s - \<phi> s) + Qla s
        \<and> Qla s = p cfg * mvp cfg * l cfg
        \<and> Vd s = p cfg * Vp cfg / 3600
        \<and> (\<exists>v. psy_v e (\<theta>o cfg) (Fin (wo s)) = Inr (Fin v) \<and> v \<noteq> 0
               \<and> m s = Vd s / v \<and> mp s = Vd s / v)
        \<and> m s = mp s
        \<and> out ! 2 = Line ''Qlat = {Qlat:.2f} W'' [Qlat s])"
proof (intro conjI impI)
  assume h: "psy_w e (\<theta>o cfg) (Fin f) 0 = Inr (Fin w)
      \<and> psy_v e (\<theta>o cfg) (Fin w) = Inr (Fin v) \<and> v \<noteq> 0"
  then have p1: "psy_w e (\<theta>o cfg) (Fin f) 0 = Inr (Fin w)"
    and p2: "psy_v e (\<theta>o cfg) (Fin w) = Inr (Fin v)" and p3: "v \<noteq> 0"
    by blast+
  from loads_stage_total [OF p1 p2 p3] obtain out0 s0 where
    run: "loads_stage cfg e f = (out0, Inr s0)"
    by blast
  from loads_stage_Inr [OF run] obtain w' v' where
    q1: "psy_w e (\<theta>o cfg) (Fin f) 0 = Inr (Fin w')"
    and q2: "psy_v e (\<theta>o cfg) (Fin w') = Inr (Fin v')" and q3: "v' \<noteq> 0"
    and s: "s0 = \<lparr> \<phi> = f, wo = w', Vd = p cfg * Vp cfg / 3600,
                   L = 2 * h cfg + 2 * l cfg, Qi = 70 * p cfg,
                   Vinf = Vinf_of cfg, minf = Vinf_of cfg / v', mp = (p cfg * Vp cfg / 3600) / v',
                   Qs = Qs_of cfg (Vinf_of cfg / v'), Qla = p cfg * mvp cfg * l cfg,
                   m = (p cfg * Vp cfg / 3600) / v',
                   Qlat = (p cfg * Vp cfg / 3600) / v' * lat cfg * (w' - f) + p cfg * mvp cfg * l cfg \<rparr>"
    and out: "out0 = [Line ''Vinf = {Vinf:.2f} kg/s'' [Vinf_of cfg],
                    Line ''Qs = {Qs:.2f} W'' [Qs s0],
                    Line ''Qlat = {Qlat:.2f} W'' [Qlat s0]]"
    by blast
  from p1 q1 have w: "w' = w" by simp
  with p2 q2 have v: "v' = v" by simp
  from loads_stage_np [OF run] obtain out' s' where
    np: "np_loads_stage cfg e (Fin f) = (out', Inr s')" and fin: "finite_loads s'"
    and eq: "real_loads s' = s0"
    by blast
  from eq have "Qlat (real_loads s') = Qlat s0" "m (real_loads s') = m s0"
    by simp_all
  then have v1: "val (Qlat s') = Qlat s0" "val (m s') = m s0"
    by (simp_all add: real_loads_def)
  from fin have v2: "is_finite (Qlat s')" "is_finite (m s')"
    by (simp_all add: finite_loads_def)
  from np have same: "m s' = mp s'"
    by (rule np_loads_stage_m)
  have a: "\<phi> s0 = f" "wo s0 = w" "Vd s0 = p cfg * Vp cfg / 3600"
    "m s0 = Vd s0 / v" "mp s0 = Vd s0 / v" "Qla s0 = p cfg * mvp cfg * l cfg"
    "Qlat s0 = m s0 * lat cfg * (wo s0 - \<phi> s0) + Qla s0"
    by (simp_all add: s w v)
  have l: "out0 ! 2 = Line ''Qlat = {Qlat:.2f} W'' [Qlat s0]"
    by (subst out) simp
  from run np a l v1 v2 same
  show "\<exists>out s out' s'.
             loads_stage cfg e f = (out, Inr s)
             \<and> \<phi> s = f \<and> wo s = w
             \<and> Vd s = p cfg * Vp cfg / 3600
             \<and> m s = Vd s / v \<and> mp s = Vd s / v
             \<and> Qla s = p cfg * mvp cfg * l cfg
             \<and> Qlat s = m s * lat cfg * (wo s - \<phi> s) + Qla s
             \<and> out ! 2 = Line ''Qlat = {Qlat:.2f} W'' [Qlat s]
             \<and> np_loads_stage cfg e (Fin f) = (out', Inr s')
             \<and> is_finite (Qlat s') \<and> val (Qlat s') = Qlat s
             \<and> is_finite (m s') \<and> val (m s') = m s \<and> m s' = mp s'"
    by blast
next
  assume run: "loads_stage cfg e f = (out, Inr s)"
  from loads_stage_Inr [OF run] obtain w' v' where
    q1: "psy_w e (\<theta>o cfg) (Fin f) 0 = Inr (Fin w')"
    and q2: "psy_v e (\<theta>o cfg) (Fin w') = Inr (Fin v')" and q3: "v' \<noteq> 0"
    and s: "s = \<lparr> \<phi> = f, wo = w', Vd = p cfg * Vp cfg / 3600,
                   L = 2 * h cfg + 2 * l cfg, Qi = 70 * p cfg,
                   Vinf = Vinf_of cfg, minf = Vinf_of cfg / v', mp = (p cfg * Vp cfg / 3600) / v',
                   Qs = Qs_of cfg (Vinf_of cfg / v'), Qla = p cfg * mvp cfg * l cfg,
                   m = (p cfg * Vp cfg / 3600) / v',
                   Qlat = (p cfg * Vp cfg / 3600) / v' * lat cfg * (w' - f) + p cfg * mvp cfg * l cfg \<rparr>"
    and out: "out = [Line ''Vinf = {Vinf:.2f} kg/s'' [Vinf_of cfg],
                    Line ''Qs = {Qs:.2f} W'' [Qs s],
                    Line ''Qlat = {Qlat:.2f} W'' [Qlat s]]"
    by blast
  show "\<phi> s = f"
    by (simp add: s)
  from q1 show "psy_w e (\<theta>o cfg) (Fin f) 0 = Inr (Fin (wo s))"
    by (simp add: s)
  show "Qlat s = m s * lat cfg * (wo s - \<phi> s) + Qla s" "Qla s = p cfg * mvp cfg * l cfg"
    "Vd s = p cfg * Vp cfg / 3600" "m s = mp s"
    by (simp_all add: s)
  from q2 q3 show "\<exists>v. psy_v e (\<theta>o cfg) (Fin (wo s)) = Inr (Fin v) \<and> v \<noteq> 0
               \<and> m s = Vd s / v \<and> mp s = Vd s / v"
    by (auto simp: s)
  show "out ! 2 = Line ''Qlat = {Qlat:.2f} W'' [Qlat s]"
    by (subst out) simp
qed

text \<open>On \<open>env0\<close>, with the constants of the source: the reading is \<open>2/5\<close>.\<close>

theorem latent_load_witness:
  "loads_stage constants env0 (2 / 5) = (out1_0, Inr loads0)
   \<and> \<phi> loads0 = 2 / 5 \<and> wo loads0 = 1 / 1250
   \<and> Qlat loads0 = m loads0 * 2496000 * (wo loads0 - \<phi> loads0) + 1 * (0.071 / 3600) * 3
   \<and> m loads0 = mp loads0 \<and> m loads0 = (1 * 36 / 3600) / (3 / 4)
   \<and> (\<exists>out' s'. np_loads_stage constants env0 (Fin (2 / 5)) = (out', Inr s')
          \<and> is_finite (Qlat s') \<and> val (Qlat s') = Qlat loads0)"
proof -
  have h: "psy_w env0 (\<theta>o constants) (Fin (2 / 5)) 0 = Inr (Fin (1 / 1250))
      \<and> psy_v env0 (\<theta>o constants) (Fin (1 / 1250)) = Inr (Fin (3 / 4)) \<and> (3 / 4 :: real) \<noteq> 0"
    by (simp add: env0_def)
  from latent_load [of env0 constants "2 / 5" "1 / 1250" "3 / 4" out1_0 loads0] h env0_loads
  show ?thesis
    by (auto simp: loads0_def constants_def)
qed

subsection \<open>The divisor of line 76\<close>

text \<open>
  Claim C10. The supply temperature is \<open>\<theta>i + 15\<close>, so the divisor \<open>c * (\<theta>s - \<theta>i)\<close> of
  line 76 is the constant 15000: for every \<open>Qs\<close>, whatever the humidity reading and the
  psychrometric values were, the division yields \<open>- Qs / 15000\<close> and never meets a zero
  divisor.
\<close>

theorem step8_denominator:
  "\<theta>s constants = \<theta>i constants + 15
   \<and> c constants * (\<theta>s constants - \<theta>i constants) = 15000
   \<and> supply_m constants q = Inr (- q / 15000)
   \<and> supply_m constants q \<noteq> Inl Special"
  by (simp add: supply_m_def real_div_def \<theta>s_def constants_def)

subsection \<open>The supply humidity and the clamp\<close>

text \<open>
  Claim C9. The supply humidity \<open>ws\<close> of line 77 is computed from the flow of line 76,
  before the clamp, and the clamp does not touch it. When the clamp fires, the final \<open>m\<close>
  is \<open>mp\<close>, which differs from the flow \<open>ws\<close> was computed from; and with a latent load
  and an \<open>mp\<close> other than zero, \<open>ws\<close> differs from what line 77 would give for the final \<open>m\<close>.
\<close>

theorem ws_before_clamp:
  assumes run: "supply_stage cfg s1 = (o2, Inr s2)"
  shows "ws s2 = \<phi> s1 - Qlat s1 / (- Qs s1 / (c cfg * (\<theta>s cfg - \<theta>i cfg)) * lat cfg)
     \<and> ws (snd (clamp_stage s2)) = ws s2
     \<and> (m s2 > mp s2 \<longrightarrow>
          m (snd (clamp_stage s2)) = mp s1
          \<and> m (snd (clamp_stage s2)) \<noteq> - Qs s1 / (c cfg * (\<theta>s cfg - \<theta>i cfg))
          \<and> (Qlat s1 \<noteq> 0 \<and> mp s1 \<noteq> 0 \<longrightarrow>
                ws (snd (clamp_stage s2)) \<noteq> \<phi> s1 - Qlat s1 / (m (snd (clamp_stage s2)) * lat cfg)))"
proof -
  from supply_stage_Inr [OF run]
  have nz: "m s2 * lat cfg \<noteq> 0"
    and eq: "m s2 = - Qs s1 / (c cfg * (\<theta>s cfg - \<theta>i cfg))"
    and w: "ws s2 = \<phi> s1 - Qlat s1 / (m s2 * lat cfg)"
    and tr: "loads.truncate s2 = s1\<lparr>m := m s2\<rparr>"
    by blast+
  from tr have "mp (loads.truncate s2) = mp s1" by simp
  then have mp: "mp s2 = mp s1" by (simp add: loads.truncate_def)
  have keep: "ws (snd (clamp_stage s2)) = ws s2"
    by (simp add: clamp_stage_def Let_def)
  have fire: "m (snd (clamp_stage s2)) = mp s1" if "m s2 > mp s2"
    using that mp by (simp add: clamp_stage_def Let_def)
  have stale: "ws s2 \<noteq> \<phi> s1 - Qlat s1 / (mp s1 * lat cfg)"
    if gt: "m s2 > mp s2" and q: "Qlat s1 \<noteq> 0" and z: "mp s1 \<noteq> 0"
  proof
    assume "ws s2 = \<phi> s1 - Qlat s1 / (mp s1 * lat cfg)"
    with w have "Qlat s1 / (m s2 * lat cfg) = Qlat s1 / (mp s1 * lat cfg)" by linarith
    with q nz z have "m s2 * lat cfg = mp s1 * lat cfg"
      by (simp add: frac_eq_eq)
    with nz have "m s2 = mp s1" by simp
    with gt mp show False by simp
  qed
  show ?thesis
    using w keep fire stale mp unfolding eq [symmetric] by auto
qed

text \<open>On \<open>env0\<close> the clamp fires, and \<open>ws\<close> is the one computed for the flow of line 76.\<close>

theorem ws_before_clamp_witness:
  "supply_stage constants loads0 = (out2_0, Inr outlet0) \<and> mp outlet0 < m outlet0
   \<and> Qlat loads0 \<noteq> 0 \<and> mp loads0 \<noteq> 0
   \<and> ws (snd (clamp_stage outlet0)) = ws outlet0
   \<and> m (snd (clamp_stage outlet0)) = mp loads0
   \<and> ws (snd (clamp_stage outlet0))
        \<noteq> \<phi> loads0 - Qlat loads0 / (m (snd (clamp_stage outlet0)) * lat constants)"
proof -
  have h: "mp outlet0 < m outlet0" "Qlat loads0 \<noteq> 0" "mp loads0 \<noteq> 0"
    by (simp_all add: loads0_def outlet0_def)
  from ws_before_clamp [OF env0_supply] h env0_supply show ?thesis
    by blast
qed


subsection \<open>What the later stages leave alone\<close>

lemma clamp_stage_frame:
  "snd (clamp_stage s) = s\<lparr>m := min (m s) (mp s)\<rparr>"
  by (simp add: clamp_stage_def Let_def min_def)

lemma supply_stage_frame:
  assumes "supply_stage cfg s1 = (o2, Inr s2)"
  shows "\<phi> s2 = \<phi> s1" "mp s2 = mp s1" "Qs s2 = Qs s1" "Qlat s2 = Qlat s1"
proof -
  from supply_stage_Inr [OF assms] have tr: "loads.truncate s2 = s1\<lparr>m := m s2\<rparr>"
    by blast
  have "\<phi> (loads.truncate s2) = \<phi> s2" "mp (loads.truncate s2) = mp s2"
    "Qs (loads.truncate s2) = Qs s2" "Qlat (loads.truncate s2) = Qlat s2"
    by (simp_all add: loads.truncate_def)
  then show "\<phi> s2 = \<phi> s1" "mp s2 = mp s1" "Qs s2 = Qs s1" "Qlat s2 = Qlat s1"
    by (simp_all add: tr)
qed

subsection \<open>Which quantities are assigned once\<close>

lemma loads_stage_cong:
  assumes "psy_w e = psy_w e'" "psy_v e = psy_v e'"
  shows "loads_stage cfg e f = loads_stage cfg e' f"
  unfolding loads_stage_def per_volume_def assms ..

lemma thermal_load_cong:
  assumes "load_\<phi> e = load_\<phi> e'" "psy_w e = psy_w e'" "psy_v e = psy_v e'"
  shows "thermal_load cfg e = thermal_load cfg e'"
  unfolding thermal_load_def assms(1) loads_stage_cong [OF assms(2,3)] ..

text \<open>
  Claim C5 says that no quantity is changed after it is computed, \<open>m\<close> included. On
  \<open>env0\<close> the variable \<open>m\<close> holds \<open>1/75\<close> after line 71 and \<open>4518503/75000000\<close> after line 76.
\<close>

theorem m_reassigned_counterexample:
  "load_\<phi> env0 = Inr (2 / 5)
   \<and> loads_stage constants env0 (2 / 5) = (out1_0, Inr loads0)
   \<and> supply_stage constants loads0 = (out2_0, Inr outlet0)
   \<and> m loads0 = 1 / 75 \<and> m outlet0 = 4518503 / 75000000 \<and> m outlet0 \<noteq> m loads0"
proof -
  have "m loads0 = 1 / 75" "m outlet0 = 4518503 / 75000000" "m outlet0 \<noteq> m loads0"
    by (simp_all add: loads0_def outlet0_def)
  then show ?thesis
    using env0_load env0_loads env0_supply by blast
qed


text \<open>
  Claim C5, amended. The result of a run is determined by the constants, the humidity
  reading and the two psychrometric functions. Of the variables bound by line 73, lines 76
  to 84 change \<open>m\<close> and nothing else, and the clamp leaves \<open>ws\<close> as line 77 bound it. The
  variable \<open>m\<close> is assigned three times: at line 71 the per-person flow (equal to \<open>mp\<close>), at
  line 76 the flow \<open>- Qs / (c * (\<theta>s - \<theta>i))\<close>, and at line 83 \<open>mp\<close> again when that flow
  exceeds it.
\<close>

theorem only_m_is_reassigned:
  "(load_\<phi> e = load_\<phi> e' \<and> psy_w e = psy_w e' \<and> psy_v e = psy_v e'
      \<longrightarrow> thermal_load cfg e = thermal_load cfg e')
   \<and> (load_\<phi> e = Inr f \<and> loads_stage cfg e f = (o1, Inr s1) \<and> supply_stage cfg s1 = (o2, Inr s2)
      \<longrightarrow> (\<exists>out s3. thermal_load cfg e = (out, Inr s3)
            \<and> loads.truncate s2 = s1\<lparr>m := m s2\<rparr>
            \<and> s3 = s2\<lparr>m := m s3\<rparr>
            \<and> m s1 = mp s1
            \<and> m s2 = - Qs s1 / (c cfg * (\<theta>s cfg - \<theta>i cfg))
            \<and> m s3 = (if m s2 > mp s1 then mp s1 else m s2)))"
proof (intro conjI impI)
  assume "load_\<phi> e = load_\<phi> e' \<and> psy_w e = psy_w e' \<and> psy_v e = psy_v e'"
  then show "thermal_load cfg e = thermal_load cfg e'"
    using thermal_load_cong by blast
next
  assume h: "load_\<phi> e = Inr f \<and> loads_stage cfg e f = (o1, Inr s1)
      \<and> supply_stage cfg s1 = (o2, Inr s2)"
  then have a: "load_\<phi> e = Inr f" and b: "loads_stage cfg e f = (o1, Inr s1)"
    and d: "supply_stage cfg s1 = (o2, Inr s2)"
    by blast+
  let ?s3 = "snd (clamp_stage s2)"
  have run: "thermal_load cfg e = (o1 @ o2 @ fst (clamp_stage s2), Inr ?s3)"
    by (simp add: thermal_load_def a b d case_prod_beta)
  from supply_stage_Inr [OF d]
  have tr: "loads.truncate s2 = s1\<lparr>m := m s2\<rparr>"
    and eq: "m s2 = - Qs s1 / (c cfg * (\<theta>s cfg - \<theta>i cfg))"
    by blast+
  from loads_stage_Inr [OF b] obtain w v where
    "s1 = \<lparr> \<phi> = f, wo = w, Vd = p cfg * Vp cfg / 3600,
                   L = 2 * h cfg + 2 * l cfg, Qi = 70 * p cfg,
                   Vinf = Vinf_of cfg, minf = Vinf_of cfg / v, mp = (p cfg * Vp cfg / 3600) / v,
                   Qs = Qs_of cfg (Vinf_of cfg / v), Qla = p cfg * mvp cfg * l cfg,
                   m = (p cfg * Vp cfg / 3600) / v,
                   Qlat = (p cfg * Vp cfg / 3600) / v * lat cfg * (w - f) + p cfg * mvp cfg * l cfg \<rparr>"
    by blast
  then have same: "m s1 = mp s1" by simp
  have upd: "?s3 = s2\<lparr>m := m ?s3\<rparr>"
    by (simp add: clamp_stage_frame)
  have fin: "m ?s3 = (if m s2 > mp s1 then mp s1 else m s2)"
    using supply_stage_frame(2) [OF d] by (simp add: clamp_stage_frame min_def)
  from run tr upd same eq fin
  show "\<exists>out s3. thermal_load cfg e = (out, Inr s3)
            \<and> loads.truncate s2 = s1\<lparr>m := m s2\<rparr>
            \<and> s3 = s2\<lparr>m := m s3\<rparr>
            \<and> m s1 = mp s1
            \<and> m s2 = - Qs s1 / (c cfg * (\<theta>s cfg - \<theta>i cfg))
            \<and> m s3 = (if m s2 > mp s1 then mp s1 else m s2)"
    by blast
qed


text \<open>On \<open>env0\<close>: the final state is the state after line 79 with \<open>m\<close> set back to \<open>mp\<close>.\<close>

theorem only_m_is_reassigned_witness:
  "\<exists>out s3. calculate_thermal_load env0 = (out, Inr s3)
     \<and> loads.truncate outlet0 = loads0\<lparr>m := m outlet0\<rparr>
     \<and> s3 = outlet0\<lparr>m := m s3\<rparr> \<and> m s3 = mp loads0"
proof -
  have pre: "load_\<phi> env0 = Inr (2 / 5) \<and> loads_stage constants env0 (2 / 5) = (out1_0, Inr loads0)
        \<and> supply_stage constants loads0 = (out2_0, Inr outlet0)"
    by (simp add: env0_load env0_loads env0_supply)
  note inst = only_m_is_reassigned [of env0 env0 constants "2 / 5" out1_0 loads0 out2_0 outlet0,
      THEN conjunct2, THEN mp, OF pre]
  from inst obtain out s3 where run: "thermal_load constants env0 = (out, Inr s3)"
    and tr: "loads.truncate outlet0 = loads0\<lparr>m := m outlet0\<rparr>"
    and upd: "s3 = outlet0\<lparr>m := m s3\<rparr>"
    and fin: "m s3 = (if m outlet0 > mp loads0 then mp loads0 else m outlet0)"
    by (elim exE conjE)
  have "mp loads0 < m outlet0"
    by (simp add: loads0_def outlet0_def)
  with fin have "m s3 = mp loads0"
    by (simp only: if_True)
  with run tr upd show ?thesis
    unfolding calculate_thermal_load_def by (intro exI conjI)
qed


subsection \<open>Monotonicity\<close>

lemma Qs_of_linear:
  "Qs_of cfg x =
     (Uw cfg * Sw cfg + x * c cfg + \<psi> cfg * (2 * h cfg + 2 * l cfg)) * (\<theta>o cfg - \<theta>i cfg)
       + 70 * p cfg"
  by (simp add: Qs_of_def algebra_simps)

lemma abs_load_steps:
  fixes k d1 d2 q :: real
  assumes k: "0 < k" and d: "\<bar>d1\<bar> < \<bar>d2\<bar>"
  shows "\<bar>k * d1\<bar> < \<bar>k * d2\<bar>"
    and "0 \<le> q \<Longrightarrow> 0 \<le> d1 \<Longrightarrow> 0 \<le> d2 \<Longrightarrow> \<bar>k * d1 + q\<bar> < \<bar>k * d2 + q\<bar>"
    and "k * d1 + q \<le> 0 \<Longrightarrow> d1 \<le> 0 \<Longrightarrow> d2 \<le> 0 \<Longrightarrow> \<bar>k * d1 + q\<bar> < \<bar>k * d2 + q\<bar>"
proof -
  show "\<bar>k * d1\<bar> < \<bar>k * d2\<bar>"
    using k d by (simp add: abs_mult)
next
  assume q: "0 \<le> q" and s: "0 \<le> d1" "0 \<le> d2"
  with d have "d1 < d2" by simp
  with k have lt: "k * d1 < k * d2" by simp
  from k s have "0 \<le> k * d1" by simp
  with lt q show "\<bar>k * d1 + q\<bar> < \<bar>k * d2 + q\<bar>" by simp
next
  assume neg: "k * d1 + q \<le> 0" and s: "d1 \<le> 0" "d2 \<le> 0"
  with d have "d2 < d1" by simp
  with k have "k * d2 < k * d1" by simp
  with neg show "\<bar>k * d1 + q\<bar> < \<bar>k * d2 + q\<bar>" by simp
qed

text \<open>
  Claim C6 says that a larger \<open>\<bar>\<theta>o - \<theta>i\<bar>\<close> always gives a larger \<open>\<bar>Qs\<bar>\<close>. With the same
  environment (so the same specific volume and the same \<open>minf\<close>), an outdoor temperature
  of 22 gives \<open>Qs = 56797/1500\<close> (about 37.9) and one of 21 gives \<open>Qs = 4297/750\<close> (about
  5.7): the difference grew from 1 to 2 and \<open>\<bar>Qs\<bar>\<close> shrank, because the occupants' 70 W
  have the opposite sign to the heat loss.
\<close>

theorem abs_Qs_not_monotone_counterexample:
  "cool = mild\<lparr>\<theta>o := 21\<rparr>
   \<and> \<bar>\<theta>o mild - \<theta>i mild\<bar> = 1 \<and> \<bar>\<theta>o cool - \<theta>i cool\<bar> = 2
   \<and> fst (loads_stage mild env0 (2 / 5)) ! 1 = Line ''Qs = {Qs:.2f} W'' [56797 / 1500]
   \<and> fst (loads_stage cool env0 (2 / 5)) ! 1 = Line ''Qs = {Qs:.2f} W'' [4297 / 750]
   \<and> \<bar>4297 / 750 :: real\<bar> < \<bar>56797 / 1500\<bar>"
proof -
  have "cool = mild\<lparr>\<theta>o := 21\<rparr>"
    by (simp add: cool_def mild_def)
  moreover have "\<bar>\<theta>o mild - \<theta>i mild\<bar> = 1" "\<bar>\<theta>o cool - \<theta>i cool\<bar> = 2"
    by (simp_all add: cool_def mild_def constants_def)
  moreover have "fst (loads_stage mild env0 (2 / 5)) ! 1 = Line ''Qs = {Qs:.2f} W'' [56797 / 1500]"
    by (simp add: loads_stage_def per_volume_def real_div_def Vinf_of_def Qs_of_def
        constants_def env0_def mild_def Let_def)
  moreover have "fst (loads_stage cool env0 (2 / 5)) ! 1 = Line ''Qs = {Qs:.2f} W'' [4297 / 750]"
    by (simp add: loads_stage_def per_volume_def real_div_def Vinf_of_def Qs_of_def
        constants_def env0_def cool_def Let_def)
  moreover have "\<bar>4297 / 750 :: real\<bar> < \<bar>56797 / 1500\<bar>"
    by simp
  ultimately show ?thesis by blast
qed

text \<open>
  Claim C6, amended. With a positive room volume, a strictly larger \<open>ACH\<close> gives a strictly
  larger \<open>Vinf\<close>, and with a positive specific volume a strictly larger \<open>minf\<close>. With \<open>minf\<close>
  held fixed and a positive coefficient \<open>Uw * Sw + minf * c + \<psi> * L\<close>, a strictly larger
  \<open>\<bar>\<theta>o - \<theta>i\<bar>\<close> gives a strictly larger \<open>\<bar>Qs - Qi\<bar>\<close>; it gives a strictly larger \<open>\<bar>Qs\<bar>\<close>
  when outdoors is no colder than indoors in both cases (with \<open>p \<ge> 0\<close>), and when
  outdoors is no warmer than indoors in both cases and \<open>Qs \<le> 0\<close> to begin with, which is
  where the source's constants are.
\<close>

theorem infiltration_and_load_monotone:
  "(0 < V cfg \<and> ACH cfg < a \<longrightarrow>
       Vinf_of cfg < Vinf_of (cfg\<lparr>ACH := a\<rparr>)
       \<and> (psy_v e (\<theta>o cfg) (Fin w) = Inr (Fin v) \<and> 0 < v \<longrightarrow>
            (\<exists>y z. per_volume cfg e w (Vinf_of cfg) = Inr y
                 \<and> per_volume (cfg\<lparr>ACH := a\<rparr>) e w (Vinf_of (cfg\<lparr>ACH := a\<rparr>)) = Inr z
                 \<and> y < z)))
   \<and> (0 < Uw cfg * Sw cfg + x * c cfg + \<psi> cfg * (2 * h cfg + 2 * l cfg)
       \<and> \<bar>\<theta>o cfg - \<theta>i cfg\<bar> < \<bar>t - u\<bar> \<longrightarrow>
         \<bar>Qs_of cfg x - 70 * p cfg\<bar> < \<bar>Qs_of (cfg\<lparr>\<theta>o := t, \<theta>i := u\<rparr>) x - 70 * p cfg\<bar>
         \<and> (0 \<le> p cfg \<and> \<theta>i cfg \<le> \<theta>o cfg \<and> u \<le> t
              \<longrightarrow> \<bar>Qs_of cfg x\<bar> < \<bar>Qs_of (cfg\<lparr>\<theta>o := t, \<theta>i := u\<rparr>) x\<bar>)
         \<and> (Qs_of cfg x \<le> 0 \<and> \<theta>o cfg \<le> \<theta>i cfg \<and> t \<le> u
              \<longrightarrow> \<bar>Qs_of cfg x\<bar> < \<bar>Qs_of (cfg\<lparr>\<theta>o := t, \<theta>i := u\<rparr>) x\<bar>))"
proof (intro conjI impI)
  assume "0 < V cfg \<and> ACH cfg < a"
  then show "Vinf_of cfg < Vinf_of (cfg\<lparr>ACH := a\<rparr>)"
    by (simp add: Vinf_of_def)
next
  assume h: "0 < V cfg \<and> ACH cfg < a" and v: "psy_v e (\<theta>o cfg) (Fin w) = Inr (Fin v) \<and> 0 < v"
  from h have "Vinf_of cfg < Vinf_of (cfg\<lparr>ACH := a\<rparr>)"
    by (simp add: Vinf_of_def)
  with v have "Vinf_of cfg / v < Vinf_of (cfg\<lparr>ACH := a\<rparr>) / v"
    by (simp add: divide_strict_right_mono)
  moreover from v have "per_volume cfg e w (Vinf_of cfg) = Inr (Vinf_of cfg / v)"
    "per_volume (cfg\<lparr>ACH := a\<rparr>) e w (Vinf_of (cfg\<lparr>ACH := a\<rparr>))
       = Inr (Vinf_of (cfg\<lparr>ACH := a\<rparr>) / v)"
    by (simp_all add: per_volume_def real_div_def)
  ultimately show "\<exists>y z. per_volume cfg e w (Vinf_of cfg) = Inr y
                 \<and> per_volume (cfg\<lparr>ACH := a\<rparr>) e w (Vinf_of (cfg\<lparr>ACH := a\<rparr>)) = Inr z
                 \<and> y < z"
    by blast
next
  define k where "k = Uw cfg * Sw cfg + x * c cfg + \<psi> cfg * (2 * h cfg + 2 * l cfg)"
  assume "0 < Uw cfg * Sw cfg + x * c cfg + \<psi> cfg * (2 * h cfg + 2 * l cfg)
       \<and> \<bar>\<theta>o cfg - \<theta>i cfg\<bar> < \<bar>t - u\<bar>"
  then have k: "0 < k" and d: "\<bar>\<theta>o cfg - \<theta>i cfg\<bar> < \<bar>t - u\<bar>"
    by (simp_all add: k_def)
  have q1: "Qs_of cfg x = k * (\<theta>o cfg - \<theta>i cfg) + 70 * p cfg"
    by (simp add: Qs_of_linear k_def)
  have q2: "Qs_of (cfg\<lparr>\<theta>o := t, \<theta>i := u\<rparr>) x = k * (t - u) + 70 * p cfg"
    by (simp add: Qs_of_linear k_def)
  show "\<bar>Qs_of cfg x - 70 * p cfg\<bar> < \<bar>Qs_of (cfg\<lparr>\<theta>o := t, \<theta>i := u\<rparr>) x - 70 * p cfg\<bar>"
    using abs_load_steps(1) [OF k d] by (simp add: q1 q2)
  {
    assume "0 \<le> p cfg \<and> \<theta>i cfg \<le> \<theta>o cfg \<and> u \<le> t"
    then have "0 \<le> 70 * p cfg" "0 \<le> \<theta>o cfg - \<theta>i cfg" "0 \<le> t - u"
      by simp_all
    from abs_load_steps(2) [OF k d this]
    show "\<bar>Qs_of cfg x\<bar> < \<bar>Qs_of (cfg\<lparr>\<theta>o := t, \<theta>i := u\<rparr>) x\<bar>"
      by (simp only: q1 q2)
  }
  {
    assume "Qs_of cfg x \<le> 0 \<and> \<theta>o cfg \<le> \<theta>i cfg \<and> t \<le> u"
    then have "k * (\<theta>o cfg - \<theta>i cfg) + 70 * p cfg \<le> 0" "\<theta>o cfg - \<theta>i cfg \<le> 0" "t - u \<le> 0"
      by (simp_all add: q1)
    from abs_load_steps(3) [OF k d this]
    show "\<bar>Qs_of cfg x\<bar> < \<bar>Qs_of (cfg\<lparr>\<theta>o := t, \<theta>i := u\<rparr>) x\<bar>"
      by (simp only: q1 q2)
  }
qed


text \<open>
  At the source's constants: \<open>ACH\<close> from 0.5 to 1, and the outdoor temperature from \<open>-7.3\<close>
  to \<open>-10\<close>; and for the warm side, from 30 to 35.
\<close>

theorem infiltration_and_load_monotone_witness:
  "Vinf_of constants < Vinf_of (constants\<lparr>ACH := 1\<rparr>)
   \<and> (\<exists>y z. per_volume constants env0 (1 / 1250) (Vinf_of constants) = Inr y
          \<and> per_volume (constants\<lparr>ACH := 1\<rparr>) env0 (1 / 1250) (Vinf_of (constants\<lparr>ACH := 1\<rparr>)) = Inr z
          \<and> y < z)
   \<and> \<bar>Qs_of constants (1 / 75)\<bar> < \<bar>Qs_of (constants\<lparr>\<theta>o := - 10, \<theta>i := 23\<rparr>) (1 / 75)\<bar>
   \<and> \<bar>Qs_of (constants\<lparr>\<theta>o := 30\<rparr>) (1 / 75)\<bar>
        < \<bar>Qs_of (constants\<lparr>\<theta>o := 30, \<theta>o := 35, \<theta>i := 23\<rparr>) (1 / 75)\<bar>"
proof -
  let ?warm = "constants\<lparr>\<theta>o := 30\<rparr>"
  have a1: "0 < V constants \<and> ACH constants < 1"
    by (simp add: constants_def)
  have a2: "psy_v env0 (\<theta>o constants) (Fin (1 / 1250)) = Inr (Fin (3 / 4)) \<and> (0::real) < 3 / 4"
    by (simp add: env0_def)
  have b1: "0 < Uw constants * Sw constants + 1 / 75 * c constants
                  + \<psi> constants * (2 * h constants + 2 * l constants)
            \<and> \<bar>\<theta>o constants - \<theta>i constants\<bar> < \<bar>- 10 - 23 :: real\<bar>"
    by (simp add: constants_def)
  have b2: "Qs_of constants (1 / 75) \<le> 0 \<and> \<theta>o constants \<le> \<theta>i constants \<and> (- 10 :: real) \<le> 23"
    by (simp add: Qs_of_def constants_def)
  have c1: "0 < Uw ?warm * Sw ?warm + 1 / 75 * c ?warm + \<psi> ?warm * (2 * h ?warm + 2 * l ?warm)
            \<and> \<bar>\<theta>o ?warm - \<theta>i ?warm\<bar> < \<bar>35 - 23 :: real\<bar>"
    by (simp add: constants_def)
  have c2: "0 \<le> p ?warm \<and> \<theta>i ?warm \<le> \<theta>o ?warm \<and> (23 :: real) \<le> 35"
    by (simp add: constants_def)
  from infiltration_and_load_monotone [of constants 1 env0 "1 / 1250" "3 / 4" "1 / 75" "- 10" 23]
    a1 a2 b1 b2
  have "Vinf_of constants < Vinf_of (constants\<lparr>ACH := 1\<rparr>)
   \<and> (\<exists>y z. per_volume constants env0 (1 / 1250) (Vinf_of constants) = Inr y
          \<and> per_volume (constants\<lparr>ACH := 1\<rparr>) env0 (1 / 1250) (Vinf_of (constants\<lparr>ACH := 1\<rparr>)) = Inr z
          \<and> y < z)
   \<and> \<bar>Qs_of constants (1 / 75)\<bar> < \<bar>Qs_of (constants\<lparr>\<theta>o := - 10, \<theta>i := 23\<rparr>) (1 / 75)\<bar>"
    by blast
  moreover
  from infiltration_and_load_monotone [of ?warm 1 env0 "1 / 1250" "3 / 4" "1 / 75" 35 23] c1 c2
  have "\<bar>Qs_of ?warm (1 / 75)\<bar> < \<bar>Qs_of (?warm\<lparr>\<theta>o := 35, \<theta>i := 23\<rparr>) (1 / 75)\<bar>"
    by blast
  ultimately show ?thesis by simp
qed


subsection \<open>The humidity reading\<close>

text \<open>
  Claim C7 says that a cell which holds no number ends the run with DataUnavailable. A
  blank cell (or \<^verbatim>\<open>n/a\<close>) arrives as nan; line 44 divides it by 100 and raises nothing.
  On \<open>env_blank\<close>, whose psychrometric functions return nan for nan, the run prints its
  five lines and returns, with \<open>\<phi>\<close> and everything computed from it nan.
\<close>

theorem blank_cell_counterexample:
  "read_excel env_blank ''humidity.csv''
     = Inr [(''I'', [Number 44, Number 43, Number 42, Number 41, Missing])]
   \<and> np_load_\<phi> env_blank = Inr NaN
   \<and> np_calculate_thermal_load env_blank = (out_blank, Inr outlet_blank)
   \<and> length out_blank = 5 \<and> \<phi> outlet_blank = NaN"
  by (simp add: env_blank_load env_blank_run)
    (simp add: env_blank_def out_blank_def outlet_blank_def)

text \<open>
  Claim C7, amended. The indoor humidity is the cell of row 4 (counting from 0) in the
  column labelled \<open>I\<close> of the sheet read from \<^verbatim>\<open>humidity.csv\<close>, divided by 100, and that
  is the \<open>\<phi>\<close> of a completed run. When the file is missing, when the column or the row
  is absent, or when the cell holds text, the run ends in an exception of the class
  DataUnavailable and has printed nothing: the read comes before the first \<^verbatim>\<open>print\<close>.
  When the cell is blank the reading is nan and nothing is raised: if the psychrometric
  functions return, the run prints all five lines and ends with \<open>\<phi>\<close> and \<open>ws\<close> nan.
\<close>

theorem humidity_source:
  "(read_excel e ''humidity.csv'' = Inr df \<and> map_of df ''I'' = Some cells
      \<and> 4 < length cells \<and> cells ! 4 = Number x
      \<longrightarrow> np_load_\<phi> e = Inr (Fin (x / 100))
          \<and> load_\<phi> e = Inr (x / 100)
          \<and> (np_thermal_load cfg e = (out, Inr s) \<longrightarrow> \<phi> s = Fin (x / 100)))
   \<and> (read_excel e ''humidity.csv'' = Inr df \<and> map_of df ''I'' = Some cells
      \<and> 4 < length cells \<and> cells ! 4 = Missing
      \<longrightarrow> np_load_\<phi> e = Inr NaN
          \<and> (psy_w e (\<theta>o cfg) NaN 0 = Inr w \<and> psy_v e (\<theta>o cfg) w = Inr v
               \<longrightarrow> (\<exists>out' s'. np_thermal_load cfg e = (out', Inr s') \<and> length out' = 5
                       \<and> \<phi> s' = NaN \<and> ws s' = NaN)))
   \<and> (read_excel e ''humidity.csv'' = Inl FileNotFoundError
       \<or> (read_excel e ''humidity.csv'' = Inr df
           \<and> (map_of df ''I'' = None
               \<or> (map_of df ''I'' = Some cells \<and> (length cells \<le> 4 \<or> cells ! 4 = Text t))))
      \<longrightarrow> (\<exists>x. DataUnavailable x \<and> np_thermal_load cfg e = ([], Inl x)))"
proof -
  have ok: "np_load_\<phi> e = Inr (Fin (x / 100))"
    if "read_excel e ''humidity.csv'' = Inr df" "map_of df ''I'' = Some cells"
       "4 < length cells" "cells ! 4 = Number x"
    using that by (simp add: np_humidity_cell_cases np_div_100)
  have ok': "load_\<phi> e = Inr (x / 100)" if "np_load_\<phi> e = Inr (Fin (x / 100))"
    using that by (simp add: load_\<phi>_def)
  have nan: "np_load_\<phi> e = Inr NaN"
    if "read_excel e ''humidity.csv'' = Inr df" "map_of df ''I'' = Some cells"
       "4 < length cells" "cells ! 4 = Missing"
    using that by (simp add: np_humidity_cell_cases)
  have go: "\<exists>out' s'. np_thermal_load cfg e = (out', Inr s') \<and> length out' = 5
                       \<and> \<phi> s' = NaN \<and> ws s' = NaN"
    if a: "np_load_\<phi> e = Inr NaN" and w: "psy_w e (\<theta>o cfg) NaN 0 = Inr w"
      and v: "psy_v e (\<theta>o cfg) w = Inr v"
  proof -
    note b = np_loads_stage_total [OF w v]
    have "ws (snd (np_supply_stage cfg s1)) = NaN" if "\<phi> s1 = NaN" for s1
      using that by (simp add: np_supply_stage_def Let_def loads.extend_def outlet.fields_def
          np_sub_def np_add_def)
    then show ?thesis
      unfolding np_thermal_load_run [OF a b]
      by (simp add: np_later_stages_frame)
  qed
  have bad: "\<exists>x. DataUnavailable x \<and> np_thermal_load cfg e = ([], Inl x)"
    if "read_excel e ''humidity.csv'' = Inl FileNotFoundError
       \<or> (read_excel e ''humidity.csv'' = Inr df
           \<and> (map_of df ''I'' = None
               \<or> (map_of df ''I'' = Some cells \<and> (length cells \<le> 4 \<or> cells ! 4 = Text t))))"
  proof -
    from that have "np_load_\<phi> e = Inl FileNotFoundError \<or> np_load_\<phi> e = Inl KeyError
        \<or> np_load_\<phi> e = Inl TypeError"
      by (auto simp: np_humidity_cell_cases)
    then show ?thesis
      by (auto simp: np_thermal_load_def DataUnavailable_def)
  qed
  show ?thesis
    using ok ok' nan go bad np_thermal_load_reading by blast
qed

text \<open>
  The reading of \<open>env0\<close>, the blank cell of \<open>env_blank\<close>, and the four ways the read fails.
\<close>

theorem humidity_source_witness:
  "np_load_\<phi> env0 = Inr (Fin (40 / 100))
   \<and> np_load_\<phi> env_blank = Inr NaN
   \<and> (\<exists>out' s'. np_calculate_thermal_load env_blank = (out', Inr s') \<and> length out' = 5
         \<and> \<phi> s' = NaN \<and> ws s' = NaN)
   \<and> np_calculate_thermal_load env_missing = ([], Inl FileNotFoundError)
   \<and> np_calculate_thermal_load env_nocolumn = ([], Inl KeyError)
   \<and> np_calculate_thermal_load env_short = ([], Inl KeyError)
   \<and> np_calculate_thermal_load env_text = ([], Inl TypeError)"
proof -
  have "np_load_\<phi> env0 = Inr (Fin (40 / 100))"
    using humidity_source [of env0 sheet0 "[Number 44, Number 43, Number 42, Number 41, Number 40]" 40]
    by (simp add: env0_def sheet0_def)
  moreover have "np_load_\<phi> env_blank = Inr NaN
     \<and> (\<exists>out' s'. np_calculate_thermal_load env_blank = (out', Inr s') \<and> length out' = 5
         \<and> \<phi> s' = NaN \<and> ws s' = NaN)"
    using humidity_source [of env_blank "[(''I'', [Number 44, Number 43, Number 42, Number 41, Missing])]"
        "[Number 44, Number 43, Number 42, Number 41, Missing]" _ constants _ _ NaN NaN]
    by (simp add: env_blank_def env0_def np_calculate_thermal_load_def)
  moreover have "np_calculate_thermal_load env_missing = ([], Inl FileNotFoundError)"
    using humidity_source [of env_missing _ _ _ constants]
    by (auto simp: env_missing_def env0_def np_calculate_thermal_load_def np_thermal_load_def
        np_humidity_cell_cases)
  moreover have "np_calculate_thermal_load env_nocolumn = ([], Inl KeyError)"
    using humidity_source [of env_nocolumn "[(''H'', [Number 1, Number 2, Number 3, Number 4, Number 5])]" _ _ constants]
    by (auto simp: env_nocolumn_def env0_def np_calculate_thermal_load_def np_thermal_load_def
        np_humidity_cell_cases)
  moreover have "np_calculate_thermal_load env_short = ([], Inl KeyError)"
    using humidity_source [of env_short "[(''I'', [Number 44, Number 43, Number 42, Number 41])]"
        "[Number 44, Number 43, Number 42, Number 41]" _ constants]
    by (auto simp: env_short_def env0_def np_calculate_thermal_load_def np_thermal_load_def
        np_humidity_cell_cases)
  moreover have "np_calculate_thermal_load env_text = ([], Inl TypeError)"
    using humidity_source [of env_text "[(''I'', [Number 44, Number 43, Number 42, Number 41, Text ''dry''])]"
        "[Number 44, Number 43, Number 42, Number 41, Text ''dry'']" _ constants _ _ _ _ "''dry''"]
    by (auto simp: env_text_def env0_def np_calculate_thermal_load_def np_thermal_load_def
        np_humidity_cell_cases)
  ultimately show ?thesis by blast
qed


subsection \<open>A zero sensible load\<close>




end
